theory Spec2Isabelle
  imports Main
begin

section \<open>JavaScript values, exceptions and promises\<close>

text \<open>
  A thrown value is an \<open>Error\<close> object with its message, a \<open>TypeError\<close> raised by the
  runtime, or any other value (here a string). \<open>toString\<close> is what a template literal
  \<^verbatim>\<open>${err}\<close> prints for it.
\<close>

datatype thrown = Error string | TypeError string | Thrown string

fun toString :: "thrown \<Rightarrow> string" where
  "toString (Error m) = (if m = [] then ''Error'' else ''Error: '' @ m)"
| "toString (TypeError m) = (if m = [] then ''TypeError'' else ''TypeError: '' @ m)"
| "toString (Thrown s) = s"

text \<open>
  A promise is modelled by how it settles. A call either returns a value or throws
  synchronously. A function declared \<^verbatim>\<open>async\<close> never throws at the call: whatever
  its body throws rejects the promise it returns (\<open>async\<close>). \<open>await\<close> turns the
  completion of a call expression inside an async body or a \<^verbatim>\<open>try\<close> block into the
  settled outcome: a synchronous throw and a rejection are the same there.
\<close>

datatype 'a promise = Fulfilled 'a | Rejected thrown

datatype 'a completion = Returned 'a | Threw thrown

definition async :: "'a promise \<times> 's \<Rightarrow> 'a promise completion \<times> 's" where
  "async r = (Returned (fst r), snd r)"

fun await :: "'a promise completion \<Rightarrow> 'a promise" where
  "await (Returned p) = p"
| "await (Threw e) = Rejected e"

text \<open>
  A plain object used as a dictionary (\<^verbatim>\<open>Record<K, V>\<close>): an association list in
  the order of \<^verbatim>\<open>Object.entries\<close>, keys distinct. \<open>assign\<close> is \<^verbatim>\<open>obj[k] = v\<close>: an
  existing key keeps its place, a new key goes last. Keys are chain names, which are
  never array indices or names of \<^verbatim>\<open>Object.prototype\<close>.
\<close>

fun assign :: "'k \<Rightarrow> 'v \<Rightarrow> ('k \<times> 'v) list \<Rightarrow> ('k \<times> 'v) list" where
  "assign k v [] = [(k, v)]"
| "assign k v ((k', v') # kvs) =
     (if k' = k then (k, v) # kvs else (k', v') # assign k v kvs)"

fun showDigits :: "nat \<Rightarrow> string" where
  "showDigits n =
     (if n < 10 then [char_of (48 + n)]
      else showDigits (n div 10) @ [char_of (48 + n mod 10)])"

section \<open>Data model\<close>

record walletBalance =
  wb_address :: string
  wb_symbol :: string
  wb_isNative :: bool
  wb_tokenAddress :: "string option"
  wb_rawBalance :: string
  wb_formattedBalance :: string

type_synonym walletBalancesByAddress = "(string \<times> walletBalance list) list"

record walletInterface =
  address :: string

text \<open>
  Modelled from the spec: \<^verbatim>\<open>WalletExecuteOptions\<close>, \<^verbatim>\<open>WalletConfigSchema\<close>,
  \<^verbatim>\<open>RebalanceInstruction\<close> and \<^verbatim>\<open>TransferReceipt\<close> are declared in modules that
  are not part of the sources; their fields are the ones the spec's data model and lock
  registry name.
\<close>

record walletExecuteOptions =
  opt_address :: "string option"
  waitToAcquireTimeout :: "nat option"
  leaseTimeout :: "nat option"

record walletConfig =
  wc_address :: string
  wc_tokens :: "string list"
  wc_private :: string

datatype rebalanceInstruction = RebalanceInstruction string string string string

datatype transferReceipt = TransferReceipt string bool

record walletRebalancingConfig =
  rb_enabled :: bool
  rb_strategy :: "string option"
  rb_interval :: "int option"
  rb_minBalanceThreshold :: "int option"
  rb_maxGasPrice :: "int option"
  rb_gasLimit :: "int option"

record tokenInfo =
  tokenContract :: string
  chainId :: int
  ti_chainName :: string
  coingeckoId :: string
  ti_symbol :: "string option"

record scheduledOptions =
  sch_enabled :: bool
  sch_interval :: "int option"

record walletPriceFeedOptions =
  pfo_enabled :: bool
  pfo_scheduled :: "scheduledOptions option"

record walletBalanceConfig =
  wbc_enabled :: bool
  wbc_scheduled :: "scheduledOptions option"

record walletManagerChainConfig =
  cfg_network :: "string option"
  cfg_chainConfig :: "string option"
  cfg_rebalance :: "walletRebalancingConfig option"
  cfg_walletBalanceConfig :: "walletBalanceConfig option"
  cfg_wallets :: "walletConfig list"
  cfg_priceFeedConfig :: "tokenInfo list option"

type_synonym walletManagerConfig = "(string \<times> walletManagerChainConfig) list"

record metricsOptions =
  met_enabled :: bool
  met_port :: "int option"
  met_path :: "string option"
  met_registry :: "string option"
  met_serve :: "bool option"

record walletManagerOptions =
  logLevel :: "string option"
  balancePollInterval :: "int option"
  metrics :: "metricsOptions option"
  failOnInvalidChain :: bool
  failOnInvalidTokens :: "bool option"
  priceFeedOptions :: "walletPriceFeedOptions option"

datatype priceFeed =
  ScheduledPriceFeed "tokenInfo list" walletPriceFeedOptions
| OnDemandPriceFeed "tokenInfo list"

record chainManagerConfig =
  cm_network :: string
  cm_chainName :: string
  cm_rebalance :: "walletRebalancingConfig option"
  cm_walletOptions :: "string option"
  cm_walletBalanceConfig :: "walletBalanceConfig option"
  cm_balancePollInterval :: "int option"
  cm_failOnInvalidTokens :: bool

section \<open>The orchestrator's sinks: logger, metrics exporter, event bus\<close>

datatype logLine = LogLine string string

datatype exporterCall =
  StartMetricsServer
| UpdateBalances string string "walletBalance list"
| UpdateRebalanceSuccess string string "transferReceipt list"
| UpdateRebalanceFailure string string
| UpdateActiveWallets string string nat
| UpdateWalletsLockPeriod string string string nat
| IncreaseAcquiredLocks string
| IncreaseAcquireLockFailure string

record prometheusExporter =
  pe_port :: "int option"
  pe_path :: "string option"
  pe_registry :: "string option"
  pe_calls :: "exporterCall list"

text \<open>What \<^verbatim>\<open>this.emitter.emit\<close> was called with, oldest first.\<close>

datatype busEvent =
  EmitError thrown string
| EmitBalances string string "walletBalance list" "walletBalance list"

record hub =
  emitter :: "busEvent list"
  exporter :: "prometheusExporter option"
  logger :: "logLine list"

definition logLn :: "string \<Rightarrow> string \<Rightarrow> hub \<Rightarrow> hub" where
  "logLn level msg h = h\<lparr>logger := logger h @ [LogLine level msg]\<rparr>"

text \<open>\<^verbatim>\<open>this.exporter?.f(...)\<close>: the call is recorded when an exporter exists.\<close>

definition exporterDo :: "exporterCall \<Rightarrow> hub \<Rightarrow> hub" where
  "exporterDo c h =
     (case exporter h of
        None \<Rightarrow> h
      | Some ex \<Rightarrow> h\<lparr>exporter := Some (ex\<lparr>pe_calls := pe_calls ex @ [c]\<rparr>)\<rparr>)"

definition emit :: "busEvent \<Rightarrow> hub \<Rightarrow> hub" where
  "emit ev h = h\<lparr>emitter := emitter h @ [ev]\<rparr>"

section \<open>Chain wallet managers\<close>

text \<open>The events a chain manager emits to its listeners, with their payloads.\<close>

datatype cwmEvent =
  CwmError thrown
| CwmBalances "walletBalance list" "walletBalance list"
| CwmRebalanceStarted string "rebalanceInstruction list"
| CwmRebalanceFinished string "transferReceipt list"
| CwmRebalanceError thrown rebalanceInstruction string
| CwmActiveWalletsCount string string nat
| CwmWalletsLockPeriod string string string nat

fun eventName :: "cwmEvent \<Rightarrow> string" where
  "eventName (CwmError _) = ''error''"
| "eventName (CwmBalances _ _) = ''balances''"
| "eventName (CwmRebalanceStarted _ _) = ''rebalance-started''"
| "eventName (CwmRebalanceFinished _ _) = ''rebalance-finished''"
| "eventName (CwmRebalanceError _ _ _) = ''rebalance-error''"
| "eventName (CwmActiveWalletsCount _ _ _) = ''active-wallets-count''"
| "eventName (CwmWalletsLockPeriod _ _ _ _) = ''wallets-lock-period''"

type_synonym listener = "cwmEvent \<Rightarrow> hub \<Rightarrow> hub"

text \<open>
  Modelled from the spec: the class \<^verbatim>\<open>ChainWalletManager\<close> is not part of the sources.
  An instance holds what it was constructed with, the listeners registered with
  \<^verbatim>\<open>on\<close> (in registration order) and an internal state \<open>cwm_inner\<close> (balance table,
  lock registry, driver) that only its own methods read and write.
\<close>

record 'd chainWalletManager =
  cwm_config :: chainManagerConfig
  cwm_wallets :: "walletConfig list"
  cwm_priceFeed :: "priceFeed option"
  cwm_listeners :: "(string \<times> listener) list"
  cwm_inner :: 'd

text \<open>
  What the orchestrator imports and does not define, taken as parameters: the table
  \<^verbatim>\<open>KNOWN_CHAINS\<close> (chain name to default network), \<^verbatim>\<open>preparePriceFeedConfig\<close>,
  and the constructor and methods of \<^verbatim>\<open>ChainWalletManager\<close> on its internal state.
  \<^verbatim>\<open>getBalances\<close> is a read of the in-memory table; every other method may change
  the internal state and, when it returns a promise, may reject. The events a chain
  manager emits are delivered apart from its methods, by \<open>cwmEmit\<close> below.
\<close>

record 'd externals =
  KNOWN_CHAINS :: "(string \<times> string) list"
  preparePriceFeedConfig :: "walletManagerConfig \<Rightarrow> tokenInfo list"
  cwm_new :: "chainManagerConfig \<Rightarrow> walletConfig list \<Rightarrow> priceFeed option \<Rightarrow> thrown + 'd"
  cwm_start :: "'d \<Rightarrow> 'd"
  cwm_stop :: "'d \<Rightarrow> 'd"
  cwm_acquireLock :: "walletExecuteOptions option \<Rightarrow> 'd \<Rightarrow> walletInterface promise \<times> 'd"
  cwm_releaseLock :: "string \<Rightarrow> 'd \<Rightarrow> unit promise \<times> 'd"
  cwm_getBalances :: "'d \<Rightarrow> walletBalancesByAddress"
  cwm_pullBalances :: "'d \<Rightarrow> walletBalancesByAddress promise \<times> 'd"
  cwm_pullBalancesAtBlockHeight :: "int option \<Rightarrow> 'd \<Rightarrow> walletBalancesByAddress promise \<times> 'd"
  cwm_getBlockHeight :: "'d \<Rightarrow> int promise \<times> 'd"

text \<open>Modelled from the spec: \<^verbatim>\<open>isChain\<close> validates a name against the known set.\<close>

definition isChain :: "'d externals \<Rightarrow> string \<Rightarrow> bool" where
  "isChain E chainName = (map_of (KNOWN_CHAINS E) chainName \<noteq> None)"

section \<open>WalletManager\<close>

record 'd walletManager = hub +
  managers :: "(string \<times> 'd chainWalletManager) list"

text \<open>A method of the manager of \<open>chainName\<close> has run and left the internal state \<open>d\<close>.\<close>

definition setInner :: "string \<Rightarrow> 'd \<Rightarrow> 'd walletManager \<Rightarrow> 'd walletManager" where
  "setInner chainName d wm =
     wm\<lparr>managers :=
       map (\<lambda>(c, m). if c = chainName then (c, m\<lparr>cwm_inner := d\<rparr>) else (c, m)) (managers wm)\<rparr>"

definition stop :: "'d externals \<Rightarrow> 'd walletManager \<Rightarrow> 'd walletManager" where
  "stop E wm =
     wm\<lparr>managers := map (\<lambda>(c, m). (c, m\<lparr>cwm_inner := cwm_stop E (cwm_inner m)\<rparr>)) (managers wm)\<rparr>"

text \<open>The sinks of the orchestrator as a listener sees them, and written back.\<close>

definition hubOf :: "'d walletManager \<Rightarrow> hub" where
  "hubOf wm = \<lparr>emitter = emitter wm, exporter = exporter wm, logger = logger wm\<rparr>"

definition withHub :: "(hub \<Rightarrow> hub) \<Rightarrow> 'd walletManager \<Rightarrow> 'd walletManager" where
  "withHub f wm =
     (let h = f (hubOf wm)
      in wm\<lparr>emitter := emitter h, exporter := exporter h, logger := logger h\<rparr>)"

definition noWallets :: "string \<Rightarrow> thrown" where
  "noWallets chainName = Error (''No wallets configured for chain: '' @ chainName)"

definition acquireLock ::
  "'d externals \<Rightarrow> string \<Rightarrow> walletExecuteOptions option \<Rightarrow> 'd walletManager
     \<Rightarrow> walletInterface promise completion \<times> 'd walletManager" where
  "acquireLock E chainName opts wm =
     async
       (case map_of (managers wm) chainName of
          None \<Rightarrow> (Rejected (noWallets chainName), wm)
        | Some chainManager \<Rightarrow>
            (case cwm_acquireLock E opts (cwm_inner chainManager) of
               (Fulfilled wallet, d) \<Rightarrow>
                 (Fulfilled wallet,
                  withHub (exporterDo (IncreaseAcquiredLocks chainName)) (setInner chainName d wm))
             | (Rejected error, d) \<Rightarrow>
                 (Rejected error,
                  withHub (exporterDo (IncreaseAcquireLockFailure chainName))
                    (setInner chainName d wm))))"

definition releaseLock ::
  "'d externals \<Rightarrow> string \<Rightarrow> string \<Rightarrow> 'd walletManager
     \<Rightarrow> unit promise completion \<times> 'd walletManager" where
  "releaseLock E chainName addr wm =
     (case map_of (managers wm) chainName of
        None \<Rightarrow> (Threw (noWallets chainName), wm)
      | Some chainManager \<Rightarrow>
          (case cwm_releaseLock E addr (cwm_inner chainManager) of
             (p, d) \<Rightarrow> (Returned p, setInner chainName d wm)))"


definition getBlockHeight ::
  "'d externals \<Rightarrow> string \<Rightarrow> 'd walletManager \<Rightarrow> int promise completion \<times> 'd walletManager" where
  "getBlockHeight E chainName wm =
     (case map_of (managers wm) chainName of
        None \<Rightarrow> (Threw (noWallets chainName), wm)
      | Some manager \<Rightarrow>
          (case cwm_getBlockHeight E (cwm_inner manager) of
             (p, d) \<Rightarrow> (Returned p, setInner chainName d wm)))"

definition getChainBalances ::
  "'d externals \<Rightarrow> string \<Rightarrow> 'd walletManager \<Rightarrow> walletBalancesByAddress completion" where
  "getChainBalances E chainName wm =
     (case map_of (managers wm) chainName of
        None \<Rightarrow> Threw (noWallets chainName)
      | Some manager \<Rightarrow> Returned (cwm_getBalances E (cwm_inner manager)))"

text \<open>
  The in-memory balance tables of all managed chains: for each entry of the manager map,
  what \<^verbatim>\<open>getBalances()\<close> of its manager returns.
\<close>

definition snapshots ::
  "'d externals \<Rightarrow> 'd walletManager \<Rightarrow> (string \<times> walletBalancesByAddress) list" where
  "snapshots E wm = map (\<lambda>(c, m). (c, cwm_getBalances E (cwm_inner m))) (managers wm)"

section \<open>Cross-chain fan-out\<close>

text \<open>
  Modelled from the spec: \<^verbatim>\<open>mapConcurrent(items, mapper, concurrency?)\<close> of
  \<^verbatim>\<open>./utils\<close> is not part of the sources. It runs \<open>mapper\<close> on every item and fails
  the whole call on the first error. The embedding is sequential: the mappers run to
  completion one after the other in the order of the items, threading the state, so the
  bound \<open>concurrency\<close> (\<open>None\<close> when the caller passes none) changes nothing here.
\<close>

fun mapConcurrent ::
  "'a list \<Rightarrow> ('a \<Rightarrow> 's \<Rightarrow> unit promise \<times> 's) \<Rightarrow> nat option \<Rightarrow> 's \<Rightarrow> unit promise \<times> 's" where
  "mapConcurrent [] mapper concurrency s = (Fulfilled (), s)"
| "mapConcurrent (x # xs) mapper concurrency s =
     (case mapper x s of
        (Rejected e, s') \<Rightarrow> (Rejected e, s')
      | (Fulfilled _, s') \<Rightarrow> mapConcurrent xs mapper concurrency s')"

text \<open>
  The state of a fan-out is the local result object together with the orchestrator.
  \<open>fanOut\<close> is the shape all four fan-outs share: start from an empty result, map over
  \<^verbatim>\<open>Object.entries(this.managers)\<close>, return the result.
\<close>

definition fanOut ::
  "(string \<times> 'd chainWalletManager
      \<Rightarrow> 'r \<times> 'd walletManager \<Rightarrow> unit promise \<times> 'r \<times> 'd walletManager)
     \<Rightarrow> nat option \<Rightarrow> 'r \<Rightarrow> 'd walletManager \<Rightarrow> 'r promise \<times> 'd walletManager" where
  "fanOut mapper concurrency start wm =
     (case mapConcurrent (managers wm) mapper concurrency (start, wm) of
        (Fulfilled _, (result, wm')) \<Rightarrow> (Fulfilled result, wm')
      | (Rejected e, (result, wm')) \<Rightarrow> (Rejected e, wm'))"

definition mapToChains ::
  "(string \<Rightarrow> 'd chainWalletManager \<Rightarrow> 'd walletManager \<Rightarrow> 'r promise \<times> 'd walletManager)
     \<Rightarrow> 'd walletManager \<Rightarrow> (string \<times> 'r) list promise completion \<times> 'd walletManager" where
  "mapToChains method wm =
     async
       (fanOut
          (\<lambda>(chain, manager) (result, s).
             (case method chain manager s of
                (Fulfilled v, s') \<Rightarrow> (Fulfilled (), (assign chain v result, s'))
              | (Rejected e, s') \<Rightarrow> (Rejected e, (result, s'))))
          None [] wm)"

definition getAllBalances ::
  "'d externals \<Rightarrow> 'd walletManager
     \<Rightarrow> (string \<times> walletBalancesByAddress) list promise completion \<times> 'd walletManager" where
  "getAllBalances E wm =
     (case mapToChains
             (\<lambda>chainName manager s. (Fulfilled (cwm_getBalances E (cwm_inner manager)), s)) wm of
        (c, wm') \<Rightarrow> async (await c, wm'))"

definition pullBalances ::
  "'d externals \<Rightarrow> 'd walletManager
     \<Rightarrow> (string \<times> walletBalancesByAddress) list promise completion \<times> 'd walletManager" where
  "pullBalances E wm =
     (case mapToChains
             (\<lambda>chainName manager s.
                (case cwm_pullBalances E (cwm_inner manager) of
                   (p, d) \<Rightarrow> (p, setInner chainName d s))) wm of
        (c, wm') \<Rightarrow> async (await c, wm'))"

fun validateBlockHeightByChain ::
  "'d walletManager \<Rightarrow> (string \<times> int) list \<Rightarrow> unit completion" where
  "validateBlockHeightByChain wm [] = Returned ()"
| "validateBlockHeightByChain wm ((chain, h) # rest) =
     (case map_of (managers wm) chain of
        None \<Rightarrow> Threw (noWallets chain)
      | Some manager \<Rightarrow> validateBlockHeightByChain wm rest)"

definition blockHeightMapper ::
  "'d externals \<Rightarrow> string \<times> 'd chainWalletManager
     \<Rightarrow> (string \<times> int) list \<times> 'd walletManager
     \<Rightarrow> unit promise \<times> (string \<times> int) list \<times> 'd walletManager" where
  "blockHeightMapper E = (\<lambda>(chainName, manager) (blockHeightPerChain, s).
     (case cwm_getBlockHeight E (cwm_inner manager) of
        (Fulfilled blockHeight, d) \<Rightarrow>
          (Fulfilled (), (assign chainName blockHeight blockHeightPerChain, setInner chainName d s))
      | (Rejected err, d) \<Rightarrow>
          (Rejected (Error (''No block height found for chain: '' @ chainName
                            @ '', error: '' @ toString err)),
           (blockHeightPerChain, setInner chainName d s))))"

definition getBlockHeightForAllSupportedChains ::
  "'d externals \<Rightarrow> 'd walletManager
     \<Rightarrow> (string \<times> int) list promise completion \<times> 'd walletManager" where
  "getBlockHeightForAllSupportedChains E wm =
     async
       (let requiredConcurrency = length (map fst (managers wm))
        in fanOut (blockHeightMapper E) (Some requiredConcurrency) [] wm)"

definition balancesAtHeightMapper ::
  "'d externals \<Rightarrow> (string \<times> int) list \<Rightarrow> string \<times> 'd chainWalletManager
     \<Rightarrow> (string \<times> walletBalancesByAddress) list \<times> 'd walletManager
     \<Rightarrow> unit promise \<times> (string \<times> walletBalancesByAddress) list \<times> 'd walletManager" where
  "balancesAtHeightMapper E blockHeightPerChain = (\<lambda>(chainName, manager) (balances, s).
     (let blockHeight = map_of blockHeightPerChain chainName
      in case cwm_pullBalancesAtBlockHeight E blockHeight (cwm_inner manager) of
           (Fulfilled balancesByChain, d) \<Rightarrow>
             (Fulfilled (), (assign chainName balancesByChain balances, setInner chainName d s))
         | (Rejected e, d) \<Rightarrow> (Rejected e, (balances, setInner chainName d s))))"

definition pullBalancesAtBlockHeight ::
  "'d externals \<Rightarrow> (string \<times> int) list option \<Rightarrow> 'd walletManager
     \<Rightarrow> (string \<times> walletBalancesByAddress) list promise completion \<times> 'd walletManager" where
  "pullBalancesAtBlockHeight E blockHeightByChain wm =
     async
       (case (case blockHeightByChain of
                Some given \<Rightarrow> validateBlockHeightByChain wm given
              | None \<Rightarrow> Returned ()) of
          Threw e \<Rightarrow> (Rejected e, wm)
        | Returned _ \<Rightarrow>
            (case (case blockHeightByChain of
                     Some given \<Rightarrow> (Fulfilled given, wm)
                   | None \<Rightarrow>
                       (case getBlockHeightForAllSupportedChains E wm of
                          (c, wm1) \<Rightarrow> (await c, wm1))) of
               (Rejected e, wm1) \<Rightarrow> (Rejected e, wm1)
             | (Fulfilled blockHeightPerChain, wm1) \<Rightarrow>
                 fanOut (balancesAtHeightMapper E blockHeightPerChain) None [] wm1))"

section \<open>Construction\<close>

text \<open>
  The price feed (\<^verbatim>\<open>priceFeedInstance\<close>): built once, before the loop over the
  chains, or left undefined. \<^verbatim>\<open>options?.priceFeedOptions?.enabled\<close> is falsy when any
  link of the chain is absent.
\<close>

definition priceFeedInstance ::
  "'d externals \<Rightarrow> walletManagerConfig \<Rightarrow> walletManagerOptions option \<Rightarrow> priceFeed option" where
  "priceFeedInstance E config options =
     (case Option.bind options priceFeedOptions of
        None \<Rightarrow> None
      | Some pfo \<Rightarrow>
          if pfo_enabled pfo then
            (let allSupportedTokens = preparePriceFeedConfig E config
             in if (case pfo_scheduled pfo of None \<Rightarrow> False | Some sch \<Rightarrow> sch_enabled sch)
                then Some (ScheduledPriceFeed allSupportedTokens pfo)
                else Some (OnDemandPriceFeed allSupportedTokens))
          else None)"

definition initExporter :: "walletManagerOptions option \<Rightarrow> hub \<Rightarrow> hub" where
  "initExporter options h =
     (case Option.bind options metrics of
        None \<Rightarrow> h
      | Some m \<Rightarrow>
          if met_enabled m then
            (let h1 = h\<lparr>exporter := Some \<lparr>pe_port = met_port m, pe_path = met_path m,
                                          pe_registry = met_registry m, pe_calls = []\<rparr>\<rparr>
             in if met_serve m = Some True
                then exporterDo StartMetricsServer (logLn ''info'' ''Starting metrics server.'' h1)
                else h1)
          else h)"

definition getDefaultNetwork :: "'d externals \<Rightarrow> string \<Rightarrow> thrown + string" where
  "getDefaultNetwork E chainName =
     (case map_of (KNOWN_CHAINS E) chainName of
        None \<Rightarrow> Inl (TypeError ''Cannot read properties of undefined (reading defaultNetwork)'')
      | Some defaultNetwork \<Rightarrow> Inr defaultNetwork)"

text \<open>\<^verbatim>\<open>chainConfig.network || getDefaultNetwork(chainName)\<close>: an empty string is falsy.\<close>

definition networkOf :: "'d externals \<Rightarrow> string \<Rightarrow> walletManagerChainConfig \<Rightarrow> thrown + string" where
  "networkOf E chainName chainConfig =
     (case cfg_network chainConfig of
        None \<Rightarrow> getDefaultNetwork E chainName
      | Some n \<Rightarrow> if n = [] then getDefaultNetwork E chainName else Inr n)"

text \<open>
  The listeners the constructor registers on a chain manager, in the order of the
  \<^verbatim>\<open>chainManager.on\<close> calls. Each closure holds \<open>chainName\<close> and \<open>network\<close> of its
  chain. The message of the first one is a plain string literal in the source.
\<close>

definition chainListeners :: "string \<Rightarrow> string \<Rightarrow> (string \<times> listener) list" where
  "chainListeners chainName network =
     [(''error'', \<lambda>ev h.
         (case ev of
            CwmError error \<Rightarrow>
              emit (EmitError error chainName)
                (logLn ''error'' ''Error in chain manager: ${error}'' h)
          | _ \<Rightarrow> h)),
      (''balances'', \<lambda>ev h.
         (case ev of
            CwmBalances balances previousBalances \<Rightarrow>
              emit (EmitBalances chainName network balances previousBalances)
                (exporterDo (UpdateBalances chainName network balances)
                   (logLn ''verbose''
                      (''Balances updated for '' @ chainName @ '' ('' @ network @ '')'') h))
          | _ \<Rightarrow> h)),
      (''rebalance-started'', \<lambda>ev h.
         (case ev of
            CwmRebalanceStarted strategy instructions \<Rightarrow>
              logLn ''info''
                (''Rebalance Started. Instructions to execute: ''
                 @ showDigits (length instructions)) h
          | _ \<Rightarrow> h)),
      (''rebalance-finished'', \<lambda>ev h.
         (case ev of
            CwmRebalanceFinished strategy receipts \<Rightarrow>
              exporterDo (UpdateRebalanceSuccess chainName strategy receipts)
                (logLn ''info''
                   (''Rebalance Finished. Executed transactions: ''
                    @ showDigits (length receipts) @ ''}'') h)
          | _ \<Rightarrow> h)),
      (''rebalance-error'', \<lambda>ev h.
         (case ev of
            CwmRebalanceError error instruction strategy \<Rightarrow>
              exporterDo (UpdateRebalanceFailure chainName strategy)
                (logLn ''error'' (''Rebalance Error: '' @ toString error) h)
          | _ \<Rightarrow> h)),
      (''active-wallets-count'', \<lambda>ev h.
         (case ev of
            CwmActiveWalletsCount chainName' network' count \<Rightarrow>
              exporterDo (UpdateActiveWallets chainName' network' count) h
          | _ \<Rightarrow> h)),
      (''wallets-lock-period'', \<lambda>ev h.
         (case ev of
            CwmWalletsLockPeriod chainName' network' walletAddress lockTime \<Rightarrow>
              exporterDo (UpdateWalletsLockPeriod chainName' network' walletAddress lockTime) h
          | _ \<Rightarrow> h))]"

text \<open>A chain manager emits an event: the listeners registered under its name run in order.\<close>

definition cwmEmit :: "'d chainWalletManager \<Rightarrow> cwmEvent \<Rightarrow> hub \<Rightarrow> hub" where
  "cwmEmit m ev h =
     fold (\<lambda>(name, l) h'. if name = eventName ev then l ev h' else h') (cwm_listeners m) h"

text \<open>
  The body of the loop for a valid chain: the network, the manager's configuration, the
  new manager with the shared price feed, its listeners, and \<^verbatim>\<open>start()\<close>.
\<close>

definition newChainManager ::
  "'d externals \<Rightarrow> walletManagerOptions option \<Rightarrow> priceFeed option \<Rightarrow> string
     \<Rightarrow> walletManagerChainConfig \<Rightarrow> thrown + 'd chainWalletManager" where
  "newChainManager E options priceFeedInst chainName chainConfig =
     (case networkOf E chainName chainConfig of
        Inl e \<Rightarrow> Inl e
      | Inr network \<Rightarrow>
          (let chainManagerConfig =
                 \<lparr>cm_network = network,
                  cm_chainName = chainName,
                  cm_rebalance = cfg_rebalance chainConfig,
                  cm_walletOptions = cfg_chainConfig chainConfig,
                  cm_walletBalanceConfig = cfg_walletBalanceConfig chainConfig,
                  cm_balancePollInterval = Option.bind options balancePollInterval,
                  cm_failOnInvalidTokens =
                    (case Option.bind options failOnInvalidTokens of
                       None \<Rightarrow> True
                     | Some b \<Rightarrow> b)\<rparr>
           in case cwm_new E chainManagerConfig (cfg_wallets chainConfig) priceFeedInst of
                Inl e \<Rightarrow> Inl e
              | Inr d \<Rightarrow>
                  Inr \<lparr>cwm_config = chainManagerConfig,
                       cwm_wallets = cfg_wallets chainConfig,
                       cwm_priceFeed = priceFeedInst,
                       cwm_listeners = chainListeners chainName network,
                       cwm_inner = cwm_start E d\<rparr>))"

text \<open>
  The loop over \<^verbatim>\<open>Object.entries(config)\<close>. \<^verbatim>\<open>options?.failOnInvalidChain\<close> is read
  as it stands: it is \<^verbatim>\<open>undefined\<close>, hence falsy, when no options are given.
\<close>

fun constructChains ::
  "'d externals \<Rightarrow> walletManagerOptions option \<Rightarrow> priceFeed option \<Rightarrow> walletManagerConfig
     \<Rightarrow> 'd walletManager \<Rightarrow> thrown + 'd walletManager" where
  "constructChains E options priceFeedInst [] wm = Inr wm"
| "constructChains E options priceFeedInst ((chainName, chainConfig) # rest) wm =
     (if \<not> isChain E chainName then
        (if (case options of None \<Rightarrow> False | Some opts \<Rightarrow> failOnInvalidChain opts)
         then Inl (Error (''Invalid chain name: '' @ chainName))
         else constructChains E options priceFeedInst rest
                (withHub (logLn ''warn'' (''Invalid chain name: '' @ chainName)) wm))
      else
        (case newChainManager E options priceFeedInst chainName chainConfig of
           Inl e \<Rightarrow> Inl e
         | Inr chainManager \<Rightarrow>
             constructChains E options priceFeedInst rest
               (wm\<lparr>managers := assign chainName chainManager (managers wm)\<rparr>)))"

definition newWalletManager ::
  "'d externals \<Rightarrow> walletManagerConfig \<Rightarrow> walletManagerOptions option
     \<Rightarrow> thrown + 'd walletManager" where
  "newWalletManager E config options =
     constructChains E options (priceFeedInstance E config options) config
       (withHub (initExporter options)
          \<lparr>emitter = [], exporter = None, logger = [], managers = []\<rparr>)"

section \<open>MultiWalletExporter: the error counters\<close>

text \<open>
  \<^verbatim>\<open>name in obj\<close> asks whether \<open>obj\<close> has a property of that name, its own or
  inherited. A \<^verbatim>\<open>Map\<close> keeps its entries apart from its properties, so for the map
  \<^verbatim>\<open>errorCounters\<close> the answer is the same whatever the map holds: the names on
  \<^verbatim>\<open>Map.prototype\<close> and \<^verbatim>\<open>Object.prototype\<close>.
\<close>

definition mapObjectProperties :: "string list" where
  "mapObjectProperties =
     [''clear'', ''constructor'', ''delete'', ''entries'', ''forEach'', ''get'', ''has'',
      ''keys'', ''set'', ''size'', ''values'',
      ''hasOwnProperty'', ''isPrototypeOf'', ''propertyIsEnumerable'', ''toLocaleString'',
      ''toString'', ''valueOf'', ''__proto__'', ''__defineGetter__'', ''__defineSetter__'',
      ''__lookupGetter__'', ''__lookupSetter__'']"

definition inMapObject :: "string \<Rightarrow> (string \<times> 'v) list \<Rightarrow> bool" where
  "inMapObject name entries = (name \<in> set mapObjectProperties)"

text \<open>
  Counters are objects: \<open>counters\<close> is the store of the ones created so far, a counter
  is referred to by its position there, and the map \<open>errorCounters\<close> holds references.
\<close>

record counter =
  counterName :: string
  counterValue :: nat

record multiWalletExporter =
  errorCounters :: "(string \<times> nat) list"
  counters :: "counter list"

text \<open>
  \<^verbatim>\<open>createExporterErrorCounter\<close> of \<^verbatim>\<open>./wallet-exporter\<close> is not part of the
  sources and is taken as a parameter: from the store and a name it gives the new store
  and the reference of the counter it made, or throws.
\<close>

type_synonym createCounter = "counter list \<Rightarrow> string \<Rightarrow> thrown + counter list \<times> nat"

definition inc :: "nat \<Rightarrow> counter list \<Rightarrow> counter list" where
  "inc c cs =
     (if c < length cs then cs[c := (cs ! c)\<lparr>counterValue := counterValue (cs ! c) + 1\<rparr>]
      else cs)"

text \<open>The listener of \<^verbatim>\<open>'error'\<close>; \<open>errorsName\<close> is \<^verbatim>\<open>options?.prometheus?.errorsName\<close>.\<close>

definition onError ::
  "createCounter \<Rightarrow> string option \<Rightarrow> string \<Rightarrow> multiWalletExporter
     \<Rightarrow> unit completion \<times> multiWalletExporter" where
  "onError createExporterErrorCounter errorsName chainName x =
     (case (if \<not> inMapObject chainName (errorCounters x) then
              (case createExporterErrorCounter (counters x)
                      (chainName @ ''_''
                       @ (case errorsName of
                            None \<Rightarrow> ''errors''
                          | Some n \<Rightarrow> if n = [] then ''errors'' else n)) of
                 Inl e \<Rightarrow> Inl e
               | Inr (cs, c) \<Rightarrow>
                   Inr (x\<lparr>counters := cs, errorCounters := assign chainName c (errorCounters x)\<rparr>))
            else Inr x) of
        Inl e \<Rightarrow> (Threw e, x)
      | Inr x1 \<Rightarrow>
          (case map_of (errorCounters x1) chainName of
             None \<Rightarrow> (Threw (TypeError ''Cannot read properties of undefined (reading inc)''), x1)
           | Some c \<Rightarrow> (Returned (), x1\<lparr>counters := inc c (counters x1)\<rparr>)))"

text \<open>A sequence of \<^verbatim>\<open>'error'\<close> events, each named by its chain; a throwing listener
  ends it.\<close>

fun onErrors ::
  "createCounter \<Rightarrow> string option \<Rightarrow> string list \<Rightarrow> multiWalletExporter
     \<Rightarrow> unit completion \<times> multiWalletExporter" where
  "onErrors create errorsName [] x = (Returned (), x)"
| "onErrors create errorsName (chainName # rest) x =
     (case onError create errorsName chainName x of
        (Threw e, x') \<Rightarrow> (Threw e, x')
      | (Returned _, x') \<Rightarrow> onErrors create errorsName rest x')"

section \<open>An example instance\<close>

text \<open>
  A small chain manager to run the orchestrator on: the lock registry is the list of held
  addresses, acquiring takes the first free wallet (the one asked for, when
  \<^verbatim>\<open>opts.address\<close> is given) and fails when none is free, releasing an address that
  is not held fails, and the driver of chain \<open>sui\<close> is unreachable.
\<close>

record exampleState =
  ex_chain :: string
  ex_wallets :: "string list"
  ex_locked :: "string list"
  ex_table :: walletBalancesByAddress
  ex_started :: bool

definition exampleHeight :: "string \<Rightarrow> int promise" where
  "exampleHeight chainName =
     (if chainName = ''ethereum'' then Fulfilled 19000000
      else if chainName = ''solana'' then Fulfilled 250000000
      else Rejected (Error ''rpc unavailable''))"

definition exampleBalances :: "string list \<Rightarrow> string \<Rightarrow> walletBalancesByAddress" where
  "exampleBalances addrs amount =
     map (\<lambda>a. (a, [\<lparr>wb_address = a, wb_symbol = ''ETH'', wb_isNative = True,
                     wb_tokenAddress = None, wb_rawBalance = amount,
                     wb_formattedBalance = amount\<rparr>])) addrs"

definition exampleAcquire ::
  "walletExecuteOptions option \<Rightarrow> exampleState \<Rightarrow> walletInterface promise \<times> exampleState" where
  "exampleAcquire opts d =
     (case filter (\<lambda>a. a \<notin> set (ex_locked d)
                        \<and> (case Option.bind opts opt_address of None \<Rightarrow> True | Some b \<Rightarrow> a = b))
             (ex_wallets d) of
        [] \<Rightarrow> (Rejected (Error ''AcquireTimeout''), d)
      | a # _ \<Rightarrow> (Fulfilled \<lparr>address = a\<rparr>, d\<lparr>ex_locked := a # ex_locked d\<rparr>))"

definition exampleRelease :: "string \<Rightarrow> exampleState \<Rightarrow> unit promise \<times> exampleState" where
  "exampleRelease a d =
     (if a \<in> set (ex_locked d) then (Fulfilled (), d\<lparr>ex_locked := removeAll a (ex_locked d)\<rparr>)
      else (Rejected (Error ''NotHeld''), d))"

definition exampleExternals :: "exampleState externals" where
  "exampleExternals =
     \<lparr>KNOWN_CHAINS = [(''ethereum'', ''mainnet''), (''solana'', ''mainnet-beta''),
                      (''sui'', ''mainnet'')],
      preparePriceFeedConfig =
        (\<lambda>config. concat (map (\<lambda>(c, cc). case cfg_priceFeedConfig cc of None \<Rightarrow> [] | Some ts \<Rightarrow> ts)
                             config)),
      cwm_new = (\<lambda>cfg ws pf.
        Inr \<lparr>ex_chain = cm_chainName cfg, ex_wallets = map wc_address ws, ex_locked = [],
             ex_table = [], ex_started = False\<rparr>),
      cwm_start = (\<lambda>d. d\<lparr>ex_started := True\<rparr>),
      cwm_stop = (\<lambda>d. d\<lparr>ex_started := False\<rparr>),
      cwm_acquireLock = exampleAcquire,
      cwm_releaseLock = exampleRelease,
      cwm_getBalances = ex_table,
      cwm_pullBalances = (\<lambda>d.
        (Fulfilled (exampleBalances (ex_wallets d) ''1.5''),
         d\<lparr>ex_table := exampleBalances (ex_wallets d) ''1.5''\<rparr>)),
      cwm_pullBalancesAtBlockHeight = (\<lambda>h d.
        (case h of
           None \<Rightarrow> (Rejected (Error ''no block height''), d)
         | Some _ \<Rightarrow> (Fulfilled (exampleBalances (ex_wallets d) ''1.0''), d))),
      cwm_getBlockHeight = (\<lambda>d. (exampleHeight (ex_chain d), d))\<rparr>"

definition exampleChain :: "string \<Rightarrow> walletManagerChainConfig" where
  "exampleChain a =
     \<lparr>cfg_network = None, cfg_chainConfig = None, cfg_rebalance = None,
      cfg_walletBalanceConfig = None,
      cfg_wallets = [\<lparr>wc_address = a, wc_tokens = [], wc_private = ''key''\<rparr>],
      cfg_priceFeedConfig = None\<rparr>"

definition exampleOptions :: walletManagerOptions where
  "exampleOptions =
     \<lparr>logLevel = None, balancePollInterval = None, metrics = None, failOnInvalidChain = True,
      failOnInvalidTokens = None, priceFeedOptions = None\<rparr>"

text \<open>
  Chain managers as the constructor leaves them (started, nothing locked, empty balance
  table), and orchestrators: for \<open>ethereum\<close> with the one wallet \<open>0xA\<close>, free and held;
  for \<open>ethereum\<close> and \<open>solana\<close>; and for \<open>ethereum\<close>, \<open>sui\<close> and \<open>solana\<close>.
\<close>

definition exampleChainManager ::
  "string \<Rightarrow> string \<Rightarrow> string \<Rightarrow> exampleState chainWalletManager" where
  "exampleChainManager chainName net a =
     \<lparr>cwm_config =
        \<lparr>cm_network = net, cm_chainName = chainName, cm_rebalance = None,
         cm_walletOptions = None, cm_walletBalanceConfig = None,
         cm_balancePollInterval = None, cm_failOnInvalidTokens = True\<rparr>,
      cwm_wallets = [\<lparr>wc_address = a, wc_tokens = [], wc_private = ''key''\<rparr>],
      cwm_priceFeed = None,
      cwm_listeners = chainListeners chainName net,
      cwm_inner =
        \<lparr>ex_chain = chainName, ex_wallets = [a], ex_locked = [],
         ex_table = [], ex_started = True\<rparr>\<rparr>"

definition exampleEthereum :: "exampleState chainWalletManager" where
  "exampleEthereum = exampleChainManager ''ethereum'' ''mainnet'' ''0xA''"

definition exampleSolana :: "exampleState chainWalletManager" where
  "exampleSolana = exampleChainManager ''solana'' ''mainnet-beta'' ''0xB''"

definition exampleSui :: "exampleState chainWalletManager" where
  "exampleSui = exampleChainManager ''sui'' ''mainnet'' ''0xC''"

definition exampleManager :: "exampleState walletManager" where
  "exampleManager =
     \<lparr>emitter = [], exporter = None, logger = [], managers = [(''ethereum'', exampleEthereum)]\<rparr>"

definition exampleBusy :: "exampleState walletManager" where
  "exampleBusy =
     \<lparr>emitter = [], exporter = None, logger = [],
      managers =
        [(''ethereum'',
          exampleEthereum\<lparr>cwm_inner := (cwm_inner exampleEthereum)\<lparr>ex_locked := [''0xA'']\<rparr>\<rparr>)]\<rparr>"

definition exampleManager2 :: "exampleState walletManager" where
  "exampleManager2 =
     \<lparr>emitter = [], exporter = None, logger = [],
      managers = [(''ethereum'', exampleEthereum), (''solana'', exampleSolana)]\<rparr>"

definition exampleManager3 :: "exampleState walletManager" where
  "exampleManager3 =
     \<lparr>emitter = [], exporter = None, logger = [],
      managers = [(''ethereum'', exampleEthereum), (''sui'', exampleSui),
                  (''solana'', exampleSolana)]\<rparr>"

text \<open>
  Configurations: the two chains; the two chains with a name in between that is no chain;
  options that tolerate it; options with a scheduled price feed.
\<close>

definition exampleConfig :: walletManagerConfig where
  "exampleConfig = [(''ethereum'', exampleChain ''0xA''), (''solana'', exampleChain ''0xB'')]"

definition exampleConfigMixed :: walletManagerConfig where
  "exampleConfigMixed =
     [(''ethereum'', exampleChain ''0xA''), (''notachain'', exampleChain ''0xZ''),
      (''solana'', exampleChain ''0xB'')]"

definition exampleLenient :: walletManagerOptions where
  "exampleLenient = exampleOptions\<lparr>failOnInvalidChain := False\<rparr>"

definition exampleScheduled :: walletManagerOptions where
  "exampleScheduled =
     exampleOptions\<lparr>priceFeedOptions :=
       Some \<lparr>pfo_enabled = True,
             pfo_scheduled = Some \<lparr>sch_enabled = True, sch_interval = Some 60000\<rparr>\<rparr>\<rparr>"

text \<open>A \<^verbatim>\<open>createExporterErrorCounter\<close> that makes a new counter at zero each time.\<close>

definition createAlways :: createCounter where
  "createAlways cs name = Inr (cs @ [\<lparr>counterName = name, counterValue = 0\<rparr>], length cs)"










section \<open>Dictionaries and the fan-out\<close>

lemma map_fst_assign:
  "map fst (assign k v kvs) = (if k \<in> fst ` set kvs then map fst kvs else map fst kvs @ [k])"
  by (induction kvs) (force simp: image_iff)+

lemma map_of_assign: "map_of (assign k v kvs) = (map_of kvs)(k \<mapsto> v)"
  by (induction kvs) (auto simp: fun_eq_iff)


lemma distinct_assign:
  "distinct (map fst kvs) \<Longrightarrow> distinct (map fst (assign k v kvs))"
  by (simp add: map_fst_assign)

lemma assign_fresh: "k \<notin> fst ` set kvs \<Longrightarrow> assign k v kvs = kvs @ [(k, v)]"
  by (induction kvs) auto

lemma managers_withHub [simp]: "managers (withHub f wm) = managers wm"
  by (simp add: withHub_def Let_def)

lemma map_fst_managers_setInner [simp]:
  "map fst (managers (setInner c d wm)) = map fst (managers wm)"
  by (simp add: setInner_def case_prod_unfold)

lemma hub_setInner [simp]:
  "emitter (setInner c d wm) = emitter wm"
  "exporter (setInner c d wm) = exporter wm"
  "logger (setInner c d wm) = logger wm"
  by (simp_all add: setInner_def)

text \<open>What every step of a fan-out preserves, the fan-out preserves.\<close>

lemma mapConcurrent_invariant:
  "(\<And>x s. x \<in> set xs \<Longrightarrow> P s \<Longrightarrow> P (snd (mapper x s)))
   \<Longrightarrow> P s \<Longrightarrow> P (snd (mapConcurrent xs mapper k s))"
proof (induction xs arbitrary: s)
  case Nil
  then show ?case by simp
next
  case (Cons x xs)
  obtain r s' where m: "mapper x s = (r, s')" by (cases "mapper x s")
  have P': "P s'" using Cons.prems(1) [of x s] Cons.prems(2) m by simp
  show ?case
  proof (cases r)
    case (Fulfilled u)
    then show ?thesis using m Cons.IH [of s'] Cons.prems(1) P' by simp
  next
    case (Rejected e)
    then show ?thesis using m P' by simp
  qed
qed

section \<open>Evaluating the example\<close>

lemmas example_defs =
  exampleExternals_def exampleAcquire_def exampleRelease_def exampleManager_def
  exampleBusy_def exampleManager2_def exampleManager3_def exampleHeight_def
  exampleEthereum_def exampleSolana_def exampleSui_def exampleChainManager_def
  setInner_def withHub_def hubOf_def exporterDo_def

section \<open>Scoped use of a wallet\<close>







section \<open>Operations on a chain without a manager\<close>

text \<open>
  C5 (amended). For a chain name with no entry in the manager map, \<^verbatim>\<open>releaseLock\<close>,
  \<^verbatim>\<open>getBlockHeight\<close> and \<^verbatim>\<open>getChainBalances\<close> throw
  \<open>No wallets configured for chain\<close> at the call, and \<^verbatim>\<open>acquireLock\<close>, declared
  \<^verbatim>\<open>async\<close>, returns a promise rejected with that error. In all four nothing of a
  chain manager is called, whatever the chain managers are, and the orchestrator's state
  is the one before the call.
\<close>

theorem unknown_chain_fails_untouched:
  assumes "map_of (managers wm) chainName = None"
  shows "acquireLock E chainName opts wm
           = (Returned (Rejected (Error (''No wallets configured for chain: '' @ chainName))), wm)
       \<and> releaseLock E chainName addr wm
           = (Threw (Error (''No wallets configured for chain: '' @ chainName)), wm)
       \<and> getBlockHeight E chainName wm
           = (Threw (Error (''No wallets configured for chain: '' @ chainName)), wm)
       \<and> getChainBalances E chainName wm
           = Threw (Error (''No wallets configured for chain: '' @ chainName))"
  using assms
  by (simp add: acquireLock_def releaseLock_def getBlockHeight_def getChainBalances_def
      async_def noWallets_def)

theorem unknown_chain_fails_untouched_witness:
  "map_of (managers exampleManager) ''solana'' = None
   \<and> acquireLock exampleExternals ''solana'' None exampleManager
        = (Returned (Rejected (Error ''No wallets configured for chain: solana'')), exampleManager)
   \<and> releaseLock exampleExternals ''solana'' ''0xA'' exampleManager
        = (Threw (Error ''No wallets configured for chain: solana''), exampleManager)
   \<and> getBlockHeight exampleExternals ''solana'' exampleManager
        = (Threw (Error ''No wallets configured for chain: solana''), exampleManager)
   \<and> getChainBalances exampleExternals ''solana'' exampleManager
        = Threw (Error ''No wallets configured for chain: solana'')"
proof -
  have h: "map_of (managers exampleManager) ''solana'' = None"
    by (simp add: exampleManager_def)
  show ?thesis
    using h unknown_chain_fails_untouched [OF h, of exampleExternals None "''0xA''"]
    by simp
qed

text \<open>
  C5 as stated fails for \<^verbatim>\<open>acquireLock\<close>: the call does not throw, it returns a
  rejected promise.
\<close>

theorem acquireLock_unknown_chain_is_rejection:
  "map_of (managers exampleManager) ''solana'' = None
   \<and> fst (acquireLock exampleExternals ''solana'' None exampleManager)
        = Returned (Rejected (Error ''No wallets configured for chain: solana''))
   \<and> fst (acquireLock exampleExternals ''solana'' None exampleManager)
        \<noteq> Threw (Error ''No wallets configured for chain: solana'')"
  by (simp add: acquireLock_def async_def noWallets_def exampleManager_def)

section \<open>Block heights of all chains\<close>

lemma fold_assign_fresh:
  "distinct (map fst xs) \<Longrightarrow> fst ` set xs \<inter> fst ` set acc = {}
   \<Longrightarrow> fold (\<lambda>(c, m) acc. assign c (f c m) acc) xs acc = acc @ map (\<lambda>(c, m). (c, f c m)) xs"
proof (induction xs arbitrary: acc)
  case Nil
  then show ?case by simp
next
  case (Cons x xs)
  obtain c m where x: "x = (c, m)" by (cases x)
  have fresh: "c \<notin> fst ` set acc" using Cons.prems(2) x by auto
  have d: "distinct (map fst xs)" and cn: "c \<notin> fst ` set xs"
    using Cons.prems(1) x by auto
  have disj: "fst ` set xs \<inter> fst ` set (acc @ [(c, f c m)]) = {}"
    using Cons.prems(2) cn by auto
  show ?case
    using Cons.IH [OF d disj] by (simp add: x assign_fresh [OF fresh])
qed

lemma blockHeightMapper_fulfilled:
  "fst (cwm_getBlockHeight E (cwm_inner m)) = Fulfilled h
   \<Longrightarrow> blockHeightMapper E (c, m) (acc, s)
        = (Fulfilled (), (assign c h acc, setInner c (snd (cwm_getBlockHeight E (cwm_inner m))) s))"
  by (cases "cwm_getBlockHeight E (cwm_inner m)") (simp add: blockHeightMapper_def)

lemma blockHeightMapper_rejected:
  "fst (cwm_getBlockHeight E (cwm_inner m)) = Rejected err
   \<Longrightarrow> blockHeightMapper E (c, m) (acc, s)
        = (Rejected (Error (''No block height found for chain: '' @ c @ '', error: ''
                            @ toString err)),
           (acc, setInner c (snd (cwm_getBlockHeight E (cwm_inner m))) s))"
  by (cases "cwm_getBlockHeight E (cwm_inner m)") (simp add: blockHeightMapper_def)

lemma blockHeights_all_fulfilled:
  assumes "\<forall>(c, m) \<in> set xs. fst (cwm_getBlockHeight E (cwm_inner m)) = Fulfilled (hs c)"
  shows "\<exists>s'. mapConcurrent xs (blockHeightMapper E) k (acc, s)
           = (Fulfilled (), (fold (\<lambda>(c, m) acc. assign c (hs c) acc) xs acc, s'))"
  using assms
proof (induction xs arbitrary: acc s)
  case Nil
  then show ?case by simp
next
  case (Cons x xs)
  obtain c m where x: "x = (c, m)" by (cases x)
  have h: "fst (cwm_getBlockHeight E (cwm_inner m)) = Fulfilled (hs c)"
    using Cons.prems x by simp
  have rest: "\<forall>(c, m) \<in> set xs. fst (cwm_getBlockHeight E (cwm_inner m)) = Fulfilled (hs c)"
    using Cons.prems by simp
  show ?case
    using Cons.IH [OF rest] by (simp add: x blockHeightMapper_fulfilled [OF h])
qed

lemma blockHeights_first_rejected:
  assumes "\<forall>(c', m') \<in> set pre. \<exists>h. fst (cwm_getBlockHeight E (cwm_inner m')) = Fulfilled h"
    and "fst (cwm_getBlockHeight E (cwm_inner m)) = Rejected err"
  shows "fst (mapConcurrent (pre @ (c, m) # post) (blockHeightMapper E) k (acc, s))
           = Rejected (Error (''No block height found for chain: '' @ c @ '', error: ''
                              @ toString err))"
  using assms(1)
proof (induction pre arbitrary: acc s)
  case Nil
  then show ?case by (simp add: blockHeightMapper_rejected [OF assms(2)])
next
  case (Cons x pre)
  obtain c' m' where x: "x = (c', m')" by (cases x)
  obtain h where h: "fst (cwm_getBlockHeight E (cwm_inner m')) = Fulfilled h"
    using Cons.prems x by auto
  have rest: "\<forall>(c', m') \<in> set pre. \<exists>h. fst (cwm_getBlockHeight E (cwm_inner m')) = Fulfilled h"
    using Cons.prems by simp
  show ?case
    using Cons.IH [OF rest] by (simp add: x blockHeightMapper_fulfilled [OF h])
qed

lemma fst_fanOut:
  "fst (fanOut mapper k start wm)
     = (case fst (mapConcurrent (managers wm) mapper k (start, wm)) of
          Fulfilled u \<Rightarrow> Fulfilled (fst (snd (mapConcurrent (managers wm) mapper k (start, wm))))
        | Rejected e \<Rightarrow> Rejected e)"
  by (simp add: fanOut_def split: prod.splits promise.splits)

lemma blockHeights_ok:
  assumes "distinct (map fst (managers wm))"
    and "\<forall>(c, m) \<in> set (managers wm). fst (cwm_getBlockHeight E (cwm_inner m)) = Fulfilled (hs c)"
  shows "fst (getBlockHeightForAllSupportedChains E wm)
           = Returned (Fulfilled (map (\<lambda>(c, m). (c, hs c)) (managers wm)))"
proof -
  obtain s' where
    "mapConcurrent (managers wm) (blockHeightMapper E) (Some (length (managers wm))) ([], wm)
       = (Fulfilled (), (fold (\<lambda>(c, m) acc. assign c (hs c) acc) (managers wm) [], s'))"
    using blockHeights_all_fulfilled [OF assms(2)] by blast
  moreover have "fold (\<lambda>(c, m) acc. assign c (hs c) acc) (managers wm) []
                   = map (\<lambda>(c, m). (c, hs c)) (managers wm)"
    using fold_assign_fresh [OF assms(1), of "[]" "\<lambda>c m. hs c"] by simp
  ultimately show ?thesis
    by (simp add: getBlockHeightForAllSupportedChains_def async_def fst_fanOut)
qed

lemma blockHeights_fail:
  assumes "managers wm = pre @ (c, m) # post"
    and "\<forall>(c', m') \<in> set pre. \<exists>h. fst (cwm_getBlockHeight E (cwm_inner m')) = Fulfilled h"
    and "fst (cwm_getBlockHeight E (cwm_inner m)) = Rejected err"
  shows "fst (getBlockHeightForAllSupportedChains E wm)
           = Returned (Rejected (Error (''No block height found for chain: '' @ c
                                        @ '', error: '' @ toString err)))"
  using blockHeights_first_rejected [OF assms(2,3), of c post _ "[]" wm]
  by (simp add: getBlockHeightForAllSupportedChains_def async_def fst_fanOut assms(1))

lemma blockHeights_fail_any:
  assumes "\<exists>(c, m) \<in> set (managers wm). \<exists>err. fst (cwm_getBlockHeight E (cwm_inner m)) = Rejected err"
  shows "\<exists>c m err. (c, m) \<in> set (managers wm)
           \<and> fst (cwm_getBlockHeight E (cwm_inner m)) = Rejected err
           \<and> fst (getBlockHeightForAllSupportedChains E wm)
               = Returned (Rejected (Error (''No block height found for chain: '' @ c
                                            @ '', error: '' @ toString err)))"
proof -
  let ?bad = "\<lambda>x. \<exists>err. fst (cwm_getBlockHeight E (cwm_inner (snd x))) = Rejected err"
  have "\<exists>x \<in> set (managers wm). ?bad x" using assms by force
  then obtain pre x post where sp: "managers wm = pre @ x # post" and bad: "?bad x"
    and good: "\<forall>y \<in> set pre. \<not> ?bad y"
    using split_list_first_prop [of "managers wm" ?bad] by blast
  obtain c m where x: "x = (c, m)" by (cases x)
  obtain err where err: "fst (cwm_getBlockHeight E (cwm_inner m)) = Rejected err"
    using bad x by auto
  have pre: "\<forall>(c', m') \<in> set pre. \<exists>h. fst (cwm_getBlockHeight E (cwm_inner m')) = Fulfilled h"
  proof (clarify)
    fix c' m' assume "(c', m') \<in> set pre"
    then have "\<not> ?bad (c', m')" using good by blast
    then show "\<exists>h. fst (cwm_getBlockHeight E (cwm_inner m')) = Fulfilled h"
      by (cases "fst (cwm_getBlockHeight E (cwm_inner m'))") auto
  qed
  have "(c, m) \<in> set (managers wm)" using sp x by simp
  then show ?thesis
    using blockHeights_fail [OF sp [unfolded x] pre err] err by blast
qed

text \<open>
  C3. \<^verbatim>\<open>getBlockHeightForAllSupportedChains\<close>: when the \<^verbatim>\<open>getBlockHeight\<close> of every
  managed chain succeeds, the call fulfils with a record that has, for every managed chain
  and in their order, the height that chain gave (the chains of the manager map being
  pairwise different, as the keys of an object are). When the call of a chain fails, all
  before it having succeeded, the whole call rejects, with no record, with the error
  \<open>No block height found for chain: <chain>, error: <the driver's error>\<close>. Hence
  whenever some chain fails the call rejects with such an error for a chain that failed.
\<close>

theorem getBlockHeightForAllSupportedChains_all_or_error:
  "(distinct (map fst (managers wm))
      \<and> (\<forall>(c, m) \<in> set (managers wm). fst (cwm_getBlockHeight E (cwm_inner m)) = Fulfilled (hs c))
     \<longrightarrow> fst (getBlockHeightForAllSupportedChains E wm)
           = Returned (Fulfilled (map (\<lambda>(c, m). (c, hs c)) (managers wm))))
   \<and> (managers wm = pre @ (c, m) # post
      \<and> (\<forall>(c', m') \<in> set pre. \<exists>h. fst (cwm_getBlockHeight E (cwm_inner m')) = Fulfilled h)
      \<and> fst (cwm_getBlockHeight E (cwm_inner m)) = Rejected err
     \<longrightarrow> fst (getBlockHeightForAllSupportedChains E wm)
           = Returned (Rejected (Error (''No block height found for chain: '' @ c
                                        @ '', error: '' @ toString err))))
   \<and> ((\<exists>(c, m) \<in> set (managers wm). \<exists>err. fst (cwm_getBlockHeight E (cwm_inner m)) = Rejected err)
     \<longrightarrow> (\<exists>c m err. (c, m) \<in> set (managers wm)
           \<and> fst (cwm_getBlockHeight E (cwm_inner m)) = Rejected err
           \<and> fst (getBlockHeightForAllSupportedChains E wm)
               = Returned (Rejected (Error (''No block height found for chain: '' @ c
                                            @ '', error: '' @ toString err)))))"
  using blockHeights_ok [of wm E hs] blockHeights_fail [of wm pre c m post E err]
    blockHeights_fail_any [of wm E]
  by blast

text \<open>
  The scenario S5 on the example: \<open>ethereum\<close> and \<open>solana\<close> give their heights; with
  \<open>sui\<close> between them, whose driver is unreachable, the call rejects naming \<open>sui\<close>.
\<close>

theorem getBlockHeightForAllSupportedChains_all_or_error_witness:
  "distinct (map fst (managers exampleManager2))
   \<and> fst (getBlockHeightForAllSupportedChains exampleExternals exampleManager2)
       = Returned (Fulfilled [(''ethereum'', 19000000), (''solana'', 250000000)])
   \<and> managers exampleManager3
       = [(''ethereum'', exampleEthereum)] @ (''sui'', exampleSui) # [(''solana'', exampleSolana)]
   \<and> fst (cwm_getBlockHeight exampleExternals (cwm_inner exampleSui))
       = Rejected (Error ''rpc unavailable'')
   \<and> fst (getBlockHeightForAllSupportedChains exampleExternals exampleManager3)
       = Returned (Rejected
           (Error ''No block height found for chain: sui, error: Error: rpc unavailable''))"
proof -
  let ?E = exampleExternals
  let ?hs = "\<lambda>c. if c = ''ethereum'' then 19000000 else (250000000 :: int)"
  have a1: "distinct (map fst (managers exampleManager2))"
    by (simp add: exampleManager2_def)
  have a2: "\<forall>(c, m) \<in> set (managers exampleManager2).
              fst (cwm_getBlockHeight ?E (cwm_inner m)) = Fulfilled (?hs c)"
    by (simp add: example_defs)
  have b1: "managers exampleManager3
              = [(''ethereum'', exampleEthereum)] @ (''sui'', exampleSui) # [(''solana'', exampleSolana)]"
    by (simp add: exampleManager3_def)
  have b2: "\<forall>(c', m') \<in> set [(''ethereum'', exampleEthereum)].
              \<exists>h. fst (cwm_getBlockHeight ?E (cwm_inner m')) = Fulfilled h"
    by (simp add: example_defs)
  have b3: "fst (cwm_getBlockHeight ?E (cwm_inner exampleSui)) = Rejected (Error ''rpc unavailable'')"
    by (simp add: example_defs)
  note claim = getBlockHeightForAllSupportedChains_all_or_error
  have "fst (getBlockHeightForAllSupportedChains ?E exampleManager2)
          = Returned (Fulfilled (map (\<lambda>(c, m). (c, ?hs c)) (managers exampleManager2)))"
    using claim [where wm = exampleManager2 and E = ?E and hs = ?hs] a1 a2 by blast
  then have c1: "fst (getBlockHeightForAllSupportedChains ?E exampleManager2)
          = Returned (Fulfilled [(''ethereum'', 19000000), (''solana'', 250000000)])"
    by (simp add: exampleManager2_def)
  have c2: "fst (getBlockHeightForAllSupportedChains ?E exampleManager3)
          = Returned (Rejected (Error (''No block height found for chain: '' @ ''sui''
                                       @ '', error: '' @ toString (Error ''rpc unavailable''))))"
    using claim [where wm = exampleManager3 and E = ?E and pre = "[(''ethereum'', exampleEthereum)]"
                 and c = "''sui''" and m = exampleSui and post = "[(''solana'', exampleSolana)]"
                 and err = "Error ''rpc unavailable''"] b1 b2 b3
    by blast
  show ?thesis using a1 b1 b3 c1 c2 by simp
qed

section \<open>What the constructor builds\<close>


lemma newChainManager_parts:
  assumes "newChainManager E options pf c cc = Inr m"
  shows "\<exists>net d. networkOf E c cc = Inr net
           \<and> cm_network (cwm_config m) = net \<and> cm_chainName (cwm_config m) = c
           \<and> cwm_new E (cwm_config m) (cfg_wallets cc) pf = Inr d
           \<and> cwm_inner m = cwm_start E d
           \<and> cwm_listeners m = chainListeners c net"
  using assms by (auto simp: newChainManager_def Let_def split: sum.splits)

text \<open>One turn of the constructor's loop, read backwards from a successful construction.\<close>

lemma constructChains_invalid:
  assumes "\<not> isChain E c"
    and "constructChains E options pf ((c, cc) # rest) wm = Inr wm'"
  shows "\<not> (case options of None \<Rightarrow> False | Some opts \<Rightarrow> failOnInvalidChain opts)"
    and "constructChains E options pf rest
           (withHub (logLn ''warn'' (''Invalid chain name: '' @ c)) wm) = Inr wm'"
  using assms by (auto split: if_splits)

lemma constructChains_valid:
  assumes "isChain E c"
    and "constructChains E options pf ((c, cc) # rest) wm = Inr wm'"
  shows "\<exists>m. newChainManager E options pf c cc = Inr m
           \<and> constructChains E options pf rest
                (wm\<lparr>managers := assign c m (managers wm)\<rparr>) = Inr wm'"
  using assms by (auto split: sum.splits)

lemma constructChains_keys:
  "constructChains E options pf cfg wm = Inr wm'
   \<Longrightarrow> set (map fst (managers wm'))
        = set (map fst (managers wm)) \<union> {c \<in> set (map fst cfg). isChain E c}"
proof (induction cfg arbitrary: wm)
  case Nil
  then show ?case by simp
next
  case (Cons x rest)
  obtain c cc where x: "x = (c, cc)" by (cases x)
  show ?case
  proof (cases "isChain E c")
    case False
    from constructChains_invalid(2) [OF False Cons.prems [unfolded x]]
    show ?thesis using Cons.IH False x by auto
  next
    case True
    from constructChains_valid [OF True Cons.prems [unfolded x]]
    obtain m where r: "constructChains E options pf rest
                         (wm\<lparr>managers := assign c m (managers wm)\<rparr>) = Inr wm'"
      by blast
    have "set (map fst (managers wm'))
            = set (map fst (assign c m (managers wm))) \<union> {c \<in> set (map fst rest). isChain E c}"
      using Cons.IH [OF r] by simp
    then show ?thesis using True x by (auto simp: map_fst_assign split: if_splits)
  qed
qed

lemma constructChains_distinct:
  "constructChains E options pf cfg wm = Inr wm'
   \<Longrightarrow> distinct (map fst (managers wm)) \<Longrightarrow> distinct (map fst (managers wm'))"
proof (induction cfg arbitrary: wm)
  case Nil
  then show ?case by simp
next
  case (Cons x rest)
  obtain c cc where x: "x = (c, cc)" by (cases x)
  show ?case
  proof (cases "isChain E c")
    case False
    from constructChains_invalid(2) [OF False Cons.prems(1) [unfolded x]]
    show ?thesis using Cons.IH Cons.prems(2) by auto
  next
    case True
    from constructChains_valid [OF True Cons.prems(1) [unfolded x]]
    obtain m where r: "constructChains E options pf rest
                         (wm\<lparr>managers := assign c m (managers wm)\<rparr>) = Inr wm'"
      by blast
    show ?thesis
      using Cons.IH [OF r] distinct_assign [OF Cons.prems(2)] by simp
  qed
qed


lemma constructChains_untouched:
  "constructChains E options pf cfg wm = Inr wm'
   \<Longrightarrow> k \<notin> fst ` set cfg \<Longrightarrow> map_of (managers wm') k = map_of (managers wm) k"
proof (induction cfg arbitrary: wm)
  case Nil
  then show ?case by simp
next
  case (Cons x rest)
  obtain c cc where x: "x = (c, cc)" by (cases x)
  have kr: "k \<notin> fst ` set rest" and ne: "k \<noteq> c" using Cons.prems(2) x by auto
  show ?case
  proof (cases "isChain E c")
    case False
    from constructChains_invalid(2) [OF False Cons.prems(1) [unfolded x]]
    show ?thesis using Cons.IH kr by auto
  next
    case True
    from constructChains_valid [OF True Cons.prems(1) [unfolded x]]
    obtain m where r: "constructChains E options pf rest
                (wm\<lparr>managers := assign c m (managers wm)\<rparr>) = Inr wm'"
      by blast
    show ?thesis
      using Cons.IH [OF r kr] ne by (simp add: map_of_assign)
  qed
qed

lemma constructChains_built:
  "constructChains E options pf cfg wm = Inr wm'
   \<Longrightarrow> distinct (map fst cfg) \<Longrightarrow> (k, kc) \<in> set cfg \<Longrightarrow> isChain E k
   \<Longrightarrow> \<exists>m. newChainManager E options pf k kc = Inr m \<and> map_of (managers wm') k = Some m"
proof (induction cfg arbitrary: wm)
  case Nil
  then show ?case by simp
next
  case (Cons x rest)
  obtain c cc where x: "x = (c, cc)" by (cases x)
  have dr: "distinct (map fst rest)" and nr: "c \<notin> fst ` set rest"
    using Cons.prems(2) x by auto
  show ?case
  proof (cases "isChain E c")
    case False
    have "(k, kc) \<in> set rest" using Cons.prems(3,4) False x by auto
    with constructChains_invalid(2) [OF False Cons.prems(1) [unfolded x]]
    show ?thesis using Cons.IH dr Cons.prems(4) by blast
  next
    case True
    from constructChains_valid [OF True Cons.prems(1) [unfolded x]]
    obtain m where m: "newChainManager E options pf c cc = Inr m"
      and r: "constructChains E options pf rest
                (wm\<lparr>managers := assign c m (managers wm)\<rparr>) = Inr wm'"
      by blast
    show ?thesis
    proof (cases "(k, kc) = (c, cc)")
      case True
      then show ?thesis
        using constructChains_untouched [OF r nr] m by (simp add: map_of_assign)
    next
      case False
      then have "(k, kc) \<in> set rest" using Cons.prems(3) x by auto
      then show ?thesis using Cons.IH [OF r dr _ Cons.prems(4)] by simp
    qed
  qed
qed


lemmas construct_defs =
  newWalletManager_def priceFeedInstance_def initExporter_def isChain_def
  newChainManager_def networkOf_def getDefaultNetwork_def logLn_def
  exampleOptions_def exampleLenient_def exampleScheduled_def exampleChain_def
  exampleConfig_def exampleConfigMixed_def

lemma example_built:
  "newWalletManager exampleExternals exampleConfig (Some exampleOptions) = Inr exampleManager2"
  by (simp add: construct_defs example_defs)

lemma example_built_mixed:
  "newWalletManager exampleExternals exampleConfigMixed (Some exampleLenient)
     = Inr (exampleManager2\<lparr>logger := [LogLine ''warn'' ''Invalid chain name: notachain'']\<rparr>)"
  by (simp add: construct_defs example_defs)

section \<open>Balances of all chains from memory\<close>

lemma mapConcurrent_pure:
  "mapConcurrent xs (\<lambda>(c, m) (result, s). (Fulfilled (), (assign c (f c m) result, s))) k (acc, s)
     = (Fulfilled (), (fold (\<lambda>(c, m) acc. assign c (f c m) acc) xs acc, s))"
  by (induction xs arbitrary: acc) auto

lemma getAllBalances_snapshots:
  assumes "distinct (map fst (managers wm))"
  shows "getAllBalances E wm = (Returned (Fulfilled (snapshots E wm)), wm)"
proof -
  have "fold (\<lambda>(c, m) acc. assign c (cwm_getBalances E (cwm_inner m)) acc) (managers wm) []
          = snapshots E wm"
    using fold_assign_fresh [OF assms, of "[]" "\<lambda>c m. cwm_getBalances E (cwm_inner m)"]
    by (simp add: snapshots_def)
  then show ?thesis
    by (simp add: getAllBalances_def mapToChains_def fanOut_def async_def mapConcurrent_pure)
qed

lemma newWalletManager_keys:
  assumes "newWalletManager E config options = Inr wm"
  shows "distinct (map fst (managers wm))"
    and "set (map fst (managers wm)) = {c \<in> set (map fst config). isChain E c}"
  using constructChains_distinct [OF assms [unfolded newWalletManager_def]]
    constructChains_keys [OF assms [unfolded newWalletManager_def]]
  by simp_all

text \<open>
  C4. On an orchestrator the constructor has built, \<^verbatim>\<open>getAllBalances\<close> fulfils with
  one entry for every entry of the manager map, in its order: the chain and what
  \<^verbatim>\<open>getBalances()\<close> of its manager returns, a read of the manager's table. The
  orchestrator and its managers are as before the call: no manager method that reaches a
  driver has run. The chains of the manager map are pairwise different and are exactly the
  names of the configuration that are chains.
\<close>

theorem getAllBalances_one_entry_per_valid_chain:
  assumes "newWalletManager E config options = Inr wm"
  shows "getAllBalances E wm = (Returned (Fulfilled (snapshots E wm)), wm)
       \<and> map fst (snapshots E wm) = map fst (managers wm)
       \<and> distinct (map fst (managers wm))
       \<and> set (map fst (managers wm)) = {c \<in> set (map fst config). isChain E c}"
  using getAllBalances_snapshots [OF newWalletManager_keys(1) [OF assms]]
    newWalletManager_keys [OF assms]
  by (simp add: snapshots_def case_prod_unfold)

text \<open>
  On the example: of \<open>ethereum\<close>, \<open>notachain\<close> and \<open>solana\<close>, configured with options that
  tolerate an invalid name, the result has the tables of \<open>ethereum\<close> and \<open>solana\<close>.
\<close>

theorem getAllBalances_one_entry_per_valid_chain_witness:
  "newWalletManager exampleExternals exampleConfigMixed (Some exampleLenient)
     = Inr (exampleManager2\<lparr>logger := [LogLine ''warn'' ''Invalid chain name: notachain'']\<rparr>)
   \<and> getAllBalances exampleExternals
        (exampleManager2\<lparr>logger := [LogLine ''warn'' ''Invalid chain name: notachain'']\<rparr>)
       = (Returned (Fulfilled [(''ethereum'', []), (''solana'', [])]),
          exampleManager2\<lparr>logger := [LogLine ''warn'' ''Invalid chain name: notachain'']\<rparr>)
   \<and> map fst (managers exampleManager2) = [''ethereum'', ''solana'']"
proof -
  let ?wm = "exampleManager2\<lparr>logger := [LogLine ''warn'' ''Invalid chain name: notachain'']\<rparr>"
  have "getAllBalances exampleExternals ?wm = (Returned (Fulfilled (snapshots exampleExternals ?wm)), ?wm)"
    using getAllBalances_one_entry_per_valid_chain [OF example_built_mixed] by blast
  moreover have "snapshots exampleExternals ?wm = [(''ethereum'', []), (''solana'', [])]"
    by (simp add: snapshots_def example_defs)
  ultimately show ?thesis
    using example_built_mixed by (simp add: exampleManager2_def)
qed

section \<open>The shared price feed\<close>









section \<open>Events of the chain managers\<close>

lemma emitter_logLn [simp]: "emitter (logLn level msg h) = emitter h"
  by (simp add: logLn_def)

lemma emitter_exporterDo [simp]: "emitter (exporterDo x h) = emitter h"
  by (simp add: exporterDo_def split: option.splits)

lemma emitter_emit [simp]: "emitter (emit ev h) = emitter h @ [ev]"
  by (simp add: emit_def)

lemma listeners_balances:
  "cwm_listeners m = chainListeners c net
   \<Longrightarrow> emitter (cwmEmit m (CwmBalances b p) h) = emitter h @ [EmitBalances c net b p]"
  by (simp add: cwmEmit_def chainListeners_def)

lemma listeners_error:
  "cwm_listeners m = chainListeners c net
   \<Longrightarrow> emitter (cwmEmit m (CwmError e) h) = emitter h @ [EmitError e c]"
  by (simp add: cwmEmit_def chainListeners_def)

text \<open>
  C9. For every entry of the configuration (its names pairwise different, as the keys of
  an object are) whose name is a chain, a successful construction leaves a manager for that
  chain in the manager map, constructed from the entry and started, whose listeners
  re-emit on the orchestrator's bus: a \<open>balances\<close> event with new and previous balances as
  \<open>balances\<close> with the chain name, the network of the chain (the configured one, else the
  chain's default) and both balances; an \<open>error\<close> event as \<open>error\<close> with the error and
  the chain name. The bus is the record of what \<^verbatim>\<open>emitter.emit\<close> was called with.
\<close>

theorem constructor_wires_events_and_starts:
  assumes "newWalletManager E config options = Inr wm"
    and "distinct (map fst config)"
    and "(c, cc) \<in> set config"
    and "isChain E c"
  shows "\<exists>m net d. map_of (managers wm) c = Some m
           \<and> networkOf E c cc = Inr net
           \<and> cwm_new E (cwm_config m) (cfg_wallets cc) (priceFeedInstance E config options) = Inr d
           \<and> cwm_inner m = cwm_start E d
           \<and> (\<forall>b p h. emitter (cwmEmit m (CwmBalances b p) h)
                         = emitter h @ [EmitBalances c net b p])
           \<and> (\<forall>e h. emitter (cwmEmit m (CwmError e) h) = emitter h @ [EmitError e c])"
proof -
  obtain m where m: "newChainManager E options (priceFeedInstance E config options) c cc = Inr m"
    and look: "map_of (managers wm) c = Some m"
    using constructChains_built [OF assms(1) [unfolded newWalletManager_def] assms(2,3,4)]
    by blast
  obtain net d where "networkOf E c cc = Inr net"
    and "cwm_new E (cwm_config m) (cfg_wallets cc) (priceFeedInstance E config options) = Inr d"
    and "cwm_inner m = cwm_start E d"
    and l: "cwm_listeners m = chainListeners c net"
    using newChainManager_parts [OF m] by blast
  then show ?thesis
    using look listeners_balances [OF l] listeners_error [OF l] by blast
qed

text \<open>On the example: the manager of \<open>ethereum\<close> is started and re-emits both events.\<close>

theorem constructor_wires_events_and_starts_witness:
  "newWalletManager exampleExternals exampleConfig (Some exampleOptions) = Inr exampleManager2
   \<and> distinct (map fst exampleConfig)
   \<and> (''ethereum'', exampleChain ''0xA'') \<in> set exampleConfig
   \<and> isChain exampleExternals ''ethereum''
   \<and> map_of (managers exampleManager2) ''ethereum'' = Some exampleEthereum
   \<and> ex_started (cwm_inner exampleEthereum)
   \<and> emitter (cwmEmit exampleEthereum (CwmBalances [] [])
                \<lparr>emitter = [], exporter = None, logger = []\<rparr>)
       = [EmitBalances ''ethereum'' ''mainnet'' [] []]
   \<and> emitter (cwmEmit exampleEthereum (CwmError (Error ''rpc unavailable''))
                \<lparr>emitter = [], exporter = None, logger = []\<rparr>)
       = [EmitError (Error ''rpc unavailable'') ''ethereum'']"
proof -
  have h2: "distinct (map fst exampleConfig)"
    by (simp add: exampleConfig_def)
  have h3: "(''ethereum'', exampleChain ''0xA'') \<in> set exampleConfig"
    by (simp add: exampleConfig_def)
  have h4: "isChain exampleExternals ''ethereum''"
    by (simp add: isChain_def exampleExternals_def)
  have look: "map_of (managers exampleManager2) ''ethereum'' = Some exampleEthereum"
    by (simp add: exampleManager2_def)
  have net: "networkOf exampleExternals ''ethereum'' (exampleChain ''0xA'') = Inr ''mainnet''"
    by (simp add: networkOf_def getDefaultNetwork_def exampleChain_def exampleExternals_def)
  obtain m n d where "map_of (managers exampleManager2) ''ethereum'' = Some m"
    and "networkOf exampleExternals ''ethereum'' (exampleChain ''0xA'') = Inr n"
    and "cwm_inner m = cwm_start exampleExternals d"
    and b: "\<forall>b p h. emitter (cwmEmit m (CwmBalances b p) h)
                      = emitter h @ [EmitBalances ''ethereum'' n b p]"
    and e: "\<forall>e h. emitter (cwmEmit m (CwmError e) h) = emitter h @ [EmitError e ''ethereum'']"
    using constructor_wires_events_and_starts [OF example_built h2 h3 h4] by blast
  then have "m = exampleEthereum" and "n = ''mainnet''"
    and "ex_started (cwm_inner m)"
    using look net by (simp_all add: exampleExternals_def)
  then show ?thesis
    using example_built h2 h3 h4 look b e by simp
qed

section \<open>Balances at given block heights\<close>

lemma validate_ok:
  "\<forall>k \<in> fst ` set heights. map_of (managers wm) k \<noteq> None
   \<Longrightarrow> validateBlockHeightByChain wm heights = Returned ()"
  by (induction heights) (auto split: option.splits)

lemma validate_fail:
  "\<exists>k \<in> fst ` set heights. map_of (managers wm) k = None
   \<Longrightarrow> \<exists>k \<in> fst ` set heights. map_of (managers wm) k = None
         \<and> validateBlockHeightByChain wm heights
             = Threw (Error (''No wallets configured for chain: '' @ k))"
proof (induction heights)
  case Nil
  then show ?case by simp
next
  case (Cons x heights)
  obtain c h where x: "x = (c, h)" by (cases x)
  show ?case
  proof (cases "map_of (managers wm) c")
    case None
    then show ?thesis by (simp add: x noWallets_def)
  next
    case (Some m)
    then have "\<exists>k \<in> fst ` set heights. map_of (managers wm) k = None"
      using Cons.prems x by auto
    from Cons.IH [OF this] show ?thesis using Some by (auto simp: x)
  qed
qed

lemma pull_given_unknown:
  assumes "\<exists>k \<in> fst ` set heights. map_of (managers wm) k = None"
  shows "\<exists>k \<in> fst ` set heights. map_of (managers wm) k = None
           \<and> pullBalancesAtBlockHeight E (Some heights) wm
               = (Returned (Rejected (Error (''No wallets configured for chain: '' @ k))), wm)"
proof -
  obtain k where "k \<in> fst ` set heights" and "map_of (managers wm) k = None"
    and "validateBlockHeightByChain wm heights
           = Threw (Error (''No wallets configured for chain: '' @ k))"
    using validate_fail [OF assms] by blast
  then show ?thesis
    by (auto simp: pullBalancesAtBlockHeight_def async_def)
qed

lemma pull_given_valid:
  assumes "\<forall>k \<in> fst ` set heights. map_of (managers wm) k \<noteq> None"
  shows "pullBalancesAtBlockHeight E (Some heights) wm
           = async (fanOut (balancesAtHeightMapper E heights) None [] wm)"
  by (simp add: pullBalancesAtBlockHeight_def validate_ok [OF assms])

lemma balancesAtHeightMapper_fulfilled:
  "fst (cwm_pullBalancesAtBlockHeight E (map_of heights c) (cwm_inner m)) = Fulfilled b
   \<Longrightarrow> balancesAtHeightMapper E heights (c, m) (acc, s)
        = (Fulfilled (),
           (assign c b acc,
            setInner c (snd (cwm_pullBalancesAtBlockHeight E (map_of heights c) (cwm_inner m))) s))"
  by (cases "cwm_pullBalancesAtBlockHeight E (map_of heights c) (cwm_inner m)")
     (simp add: balancesAtHeightMapper_def)

lemma balancesAtHeight_all_fulfilled:
  assumes "\<forall>(c, m) \<in> set xs.
             fst (cwm_pullBalancesAtBlockHeight E (map_of heights c) (cwm_inner m)) = Fulfilled (bal c)"
  shows "\<exists>s'. mapConcurrent xs (balancesAtHeightMapper E heights) k (acc, s)
           = (Fulfilled (), (fold (\<lambda>(c, m) acc. assign c (bal c) acc) xs acc, s'))"
  using assms
proof (induction xs arbitrary: acc s)
  case Nil
  then show ?case by simp
next
  case (Cons x xs)
  obtain c m where x: "x = (c, m)" by (cases x)
  have h: "fst (cwm_pullBalancesAtBlockHeight E (map_of heights c) (cwm_inner m)) = Fulfilled (bal c)"
    using Cons.prems x by simp
  have rest: "\<forall>(c, m) \<in> set xs.
      fst (cwm_pullBalancesAtBlockHeight E (map_of heights c) (cwm_inner m)) = Fulfilled (bal c)"
    using Cons.prems by simp
  show ?case
    using Cons.IH [OF rest] by (simp add: x balancesAtHeightMapper_fulfilled [OF h])
qed

lemma pull_given_ok:
  assumes "distinct (map fst (managers wm))"
    and "\<forall>k \<in> fst ` set heights. map_of (managers wm) k \<noteq> None"
    and "\<forall>(c, m) \<in> set (managers wm).
           fst (cwm_pullBalancesAtBlockHeight E (map_of heights c) (cwm_inner m)) = Fulfilled (bal c)"
  shows "fst (pullBalancesAtBlockHeight E (Some heights) wm)
           = Returned (Fulfilled (map (\<lambda>(c, m). (c, bal c)) (managers wm)))"
proof -
  obtain s' where
    "mapConcurrent (managers wm) (balancesAtHeightMapper E heights) None ([], wm)
       = (Fulfilled (), (fold (\<lambda>(c, m) acc. assign c (bal c) acc) (managers wm) [], s'))"
    using balancesAtHeight_all_fulfilled [OF assms(3)] by blast
  moreover have "fold (\<lambda>(c, m) acc. assign c (bal c) acc) (managers wm) []
                   = map (\<lambda>(c, m). (c, bal c)) (managers wm)"
    using fold_assign_fresh [OF assms(1), of "[]" "\<lambda>c m. bal c"] by simp
  ultimately show ?thesis
    by (simp add: pull_given_valid [OF assms(2)] async_def fst_fanOut)
qed

lemma pull_none_rejected:
  "getBlockHeightForAllSupportedChains E wm = (Returned (Rejected e), wm1)
   \<Longrightarrow> pullBalancesAtBlockHeight E None wm = (Returned (Rejected e), wm1)"
  by (simp add: pullBalancesAtBlockHeight_def async_def)

text \<open>The record of heights has managed chains only, and the manager map keeps its chains.\<close>

lemma keys_assign: "fst ` set (assign k v kvs) = insert k (fst ` set kvs)"
  by (induction kvs) (force simp: image_iff)+

lemma keys_managers_setInner [simp]:
  "fst ` set (managers (setInner c d wm)) = fst ` set (managers wm)"
proof -
  have "set (map fst (managers (setInner c d wm))) = set (map fst (managers wm))"
    by (simp only: map_fst_managers_setInner)
  then show ?thesis by (simp only: set_map)
qed

lemma blockHeightMapper_keys:
  assumes "(c, m) \<in> set (managers wm)"
    and "fst ` set acc \<subseteq> fst ` set (managers wm)"
    and "fst ` set (managers s) = fst ` set (managers wm)"
  shows "fst ` set (fst (snd (blockHeightMapper E (c, m) (acc, s)))) \<subseteq> fst ` set (managers wm)"
    and "fst ` set (managers (snd (snd (blockHeightMapper E (c, m) (acc, s)))))
           = fst ` set (managers wm)"
proof -
  have c: "c \<in> fst ` set (managers wm)" using assms(1) by force
  obtain r d where g: "cwm_getBlockHeight E (cwm_inner m) = (r, d)"
    by (cases "cwm_getBlockHeight E (cwm_inner m)")
  show "fst ` set (fst (snd (blockHeightMapper E (c, m) (acc, s)))) \<subseteq> fst ` set (managers wm)"
    using assms(2) c by (cases r) (simp_all add: blockHeightMapper_def g keys_assign)
  show "fst ` set (managers (snd (snd (blockHeightMapper E (c, m) (acc, s)))))
          = fst ` set (managers wm)"
    using assms(3) by (cases r) (simp_all add: blockHeightMapper_def g)
qed

lemma blockHeights_keys:
  fixes wm :: "'d walletManager"
  assumes "getBlockHeightForAllSupportedChains E wm = (Returned (Fulfilled heights), wm1)"
  shows "fst ` set heights \<subseteq> fst ` set (managers wm)"
    and "fst ` set (managers wm1) = fst ` set (managers wm)"
proof -
  let ?P = "\<lambda>as :: (string \<times> int) list \<times> 'd walletManager.
              fst ` set (fst as) \<subseteq> fst ` set (managers wm)
                  \<and> fst ` set (managers (snd as)) = fst ` set (managers wm)"
  define r where "r = mapConcurrent (managers wm) (blockHeightMapper E)
                        (Some (length (managers wm))) ([], wm)"
  have inv: "?P (snd r)"
    unfolding r_def
  proof (rule mapConcurrent_invariant [where P = ?P])
    show "?P ([], wm)" by simp
  next
    fix x and as :: "(string \<times> int) list \<times> 'd walletManager"
    assume x: "x \<in> set (managers wm)" and P: "?P as"
    obtain c m where xc: "x = (c, m)" by (cases x)
    obtain acc s where asc: "as = (acc, s)" by (cases as)
    have "(c, m) \<in> set (managers wm)" using x xc by simp
    moreover have "fst ` set acc \<subseteq> fst ` set (managers wm)"
      and "fst ` set (managers s) = fst ` set (managers wm)"
      using P asc by simp_all
    ultimately show "?P (snd (blockHeightMapper E x as))"
      unfolding xc asc using blockHeightMapper_keys [of c m wm acc s E] by blast
  qed
  obtain p acc s where r: "r = (p, (acc, s))"
    by (cases r) auto
  have f: "fanOut (blockHeightMapper E) (Some (length (managers wm))) [] wm
             = (case p of Fulfilled u \<Rightarrow> (Fulfilled acc, s) | Rejected e \<Rightarrow> (Rejected e, s))"
    using r unfolding r_def fanOut_def by (cases p) simp_all
  have "heights = acc \<and> wm1 = s"
    using assms f
    by (cases p) (simp_all add: getBlockHeightForAllSupportedChains_def async_def)
  then show "fst ` set heights \<subseteq> fst ` set (managers wm)"
    and "fst ` set (managers wm1) = fst ` set (managers wm)"
    using inv r by simp_all
qed

lemma pull_none_fulfilled:
  assumes "getBlockHeightForAllSupportedChains E wm = (Returned (Fulfilled heights), wm1)"
  shows "pullBalancesAtBlockHeight E None wm = pullBalancesAtBlockHeight E (Some heights) wm1"
proof -
  have "\<forall>k \<in> fst ` set heights. map_of (managers wm1) k \<noteq> None"
    using blockHeights_keys [OF assms] by (auto simp: map_of_eq_None_iff)
  from pull_given_valid [OF this] show ?thesis
    using assms by (simp add: pullBalancesAtBlockHeight_def)
qed

text \<open>A manager method that leaves the table of its manager alone leaves all tables alone.\<close>

lemma map_fst_snapshots [simp]: "map fst (snapshots E wm) = map fst (managers wm)"
  by (simp add: snapshots_def case_prod_unfold)

lemma snapshots_setInner_raw:
  "snapshots E (setInner c d s)
     = map (\<lambda>(c', v). (c', if c' = c then cwm_getBalances E d else v)) (snapshots E s)"
proof -
  have "\<And>xs :: (string \<times> 'a chainWalletManager) list.
          map (\<lambda>(c', m'). (c', cwm_getBalances E (cwm_inner m')))
              (map (\<lambda>(c', m'). if c' = c then (c', m'\<lparr>cwm_inner := d\<rparr>) else (c', m')) xs)
          = map (\<lambda>(c', v). (c', if c' = c then cwm_getBalances E d else v))
              (map (\<lambda>(c', m'). (c', cwm_getBalances E (cwm_inner m'))) xs)"
    subgoal for xs by (induction xs) auto
    done
  then show ?thesis by (simp add: snapshots_def setInner_def)
qed

lemma snapshots_setInner:
  assumes "distinct (map fst (managers w))"
    and "(c, m) \<in> set (managers w)"
    and "snapshots E s = snapshots E w"
    and "cwm_getBalances E d = cwm_getBalances E (cwm_inner m)"
  shows "snapshots E (setInner c d s) = snapshots E w"
proof -
  have "map (\<lambda>(c', v). (c', if c' = c then cwm_getBalances E d else v)) (snapshots E w)
          = snapshots E w"
  proof (rule map_idI)
    fix x assume "x \<in> set (snapshots E w)"
    then obtain c' m' where x: "x = (c', cwm_getBalances E (cwm_inner m'))"
      and mem: "(c', m') \<in> set (managers w)"
      by (auto simp: snapshots_def)
    have "c' = c \<Longrightarrow> m' = m"
      using eq_key_imp_eq_value [OF assms(1)] mem assms(2) by blast
    then show "(case x of (c', v) \<Rightarrow> (c', if c' = c then cwm_getBalances E d else v)) = x"
      using assms(4) by (auto simp: x)
  qed
  then show ?thesis by (simp add: snapshots_setInner_raw assms(3))
qed

lemma blockHeightMapper_snapshots:
  assumes "distinct (map fst (managers w))"
    and "(c, m) \<in> set (managers w)"
    and "snapshots E s = snapshots E w"
    and "\<forall>d. cwm_getBalances E (snd (cwm_getBlockHeight E d)) = cwm_getBalances E d"
  shows "snapshots E (snd (snd (blockHeightMapper E (c, m) (acc, s)))) = snapshots E w"
proof -
  obtain r d where g: "cwm_getBlockHeight E (cwm_inner m) = (r, d)"
    by (cases "cwm_getBlockHeight E (cwm_inner m)")
  have "cwm_getBalances E d = cwm_getBalances E (cwm_inner m)"
    using assms(4) g by (metis snd_conv)
  from snapshots_setInner [OF assms(1,2,3) this] show ?thesis
    by (cases r) (simp_all add: blockHeightMapper_def g)
qed

lemma balancesAtHeightMapper_snapshots:
  assumes "distinct (map fst (managers w))"
    and "(c, m) \<in> set (managers w)"
    and "snapshots E s = snapshots E w"
    and "\<forall>h d. cwm_getBalances E (snd (cwm_pullBalancesAtBlockHeight E h d)) = cwm_getBalances E d"
  shows "snapshots E (snd (snd (balancesAtHeightMapper E heights (c, m) (acc, s)))) = snapshots E w"
proof -
  obtain r d where g: "cwm_pullBalancesAtBlockHeight E (map_of heights c) (cwm_inner m) = (r, d)"
    by (cases "cwm_pullBalancesAtBlockHeight E (map_of heights c) (cwm_inner m)")
  have "cwm_getBalances E d = cwm_getBalances E (cwm_inner m)"
    using assms(4) g by (metis snd_conv)
  from snapshots_setInner [OF assms(1,2,3) this] show ?thesis
    by (cases r) (simp_all add: balancesAtHeightMapper_def g)
qed

lemma snd_fanOut:
  "snd (fanOut mapper k start wm) = snd (snd (mapConcurrent (managers wm) mapper k (start, wm)))"
proof -
  obtain p acc s where r: "mapConcurrent (managers wm) mapper k (start, wm) = (p, (acc, s))"
    by (cases "mapConcurrent (managers wm) mapper k (start, wm)") auto
  show ?thesis unfolding fanOut_def r by (cases p) simp_all
qed

lemma fanOut_snapshots:
  fixes w :: "'d walletManager" and start :: 'r
  assumes "\<And>c m acc s. (c, m) \<in> set (managers w) \<Longrightarrow> snapshots E s = snapshots E w
             \<Longrightarrow> snapshots E (snd (snd (mapper (c, m) (acc, s)))) = snapshots E w"
  shows "snapshots E (snd (fanOut mapper k start w)) = snapshots E w"
proof -
  let ?P = "\<lambda>as :: 'r \<times> 'd walletManager. snapshots E (snd as) = snapshots E w"
  have "?P (snd (mapConcurrent (managers w) mapper k (start, w)))"
  proof (rule mapConcurrent_invariant [where P = ?P])
    show "?P (start, w)" by simp
  next
    fix x and as :: "'r \<times> 'd walletManager"
    assume x: "x \<in> set (managers w)" and P: "?P as"
    obtain c m where xc: "x = (c, m)" by (cases x)
    obtain acc s where asc: "as = (acc, s)" by (cases as)
    show "?P (snd (mapper x as))"
      using assms [of c m s acc] x P by (simp add: xc asc)
  qed
  then show ?thesis by (simp add: snd_fanOut)
qed

lemma pull_snapshots:
  assumes "distinct (map fst (managers wm))"
    and "\<forall>h d. cwm_getBalances E (snd (cwm_pullBalancesAtBlockHeight E h d)) = cwm_getBalances E d"
    and "\<forall>d. cwm_getBalances E (snd (cwm_getBlockHeight E d)) = cwm_getBalances E d"
  shows "snapshots E (snd (pullBalancesAtBlockHeight E heightsByChain wm)) = snapshots E wm"
proof -
  have query: "\<And>w heights. distinct (map fst (managers w))
     \<Longrightarrow> snapshots E (snd (fanOut (balancesAtHeightMapper E heights) None [] w)) = snapshots E w"
    by (rule fanOut_snapshots) (use balancesAtHeightMapper_snapshots assms(2) in blast)
  show ?thesis
  proof (cases heightsByChain)
    case (Some heights)
    show ?thesis
    proof (cases "validateBlockHeightByChain wm heights")
      case (Returned u)
      then show ?thesis
        using query [OF assms(1)] by (simp add: pullBalancesAtBlockHeight_def Some async_def)
    next
      case (Threw e)
      then show ?thesis by (simp add: pullBalancesAtBlockHeight_def Some async_def)
    qed
  next
    case None
    let ?h = "fanOut (blockHeightMapper E) (Some (length (managers wm))) [] wm"
    obtain p wm1 where h: "?h = (p, wm1)" by (cases ?h)
    have s1: "snapshots E wm1 = snapshots E wm"
      using fanOut_snapshots [of wm E "blockHeightMapper E" "Some (length (managers wm))" "[]"]
        blockHeightMapper_snapshots [OF assms(1) _ _ assms(3)] h
      by (metis snd_conv)
    have "map fst (managers wm1) = map fst (managers wm)"
      using arg_cong [where f = "map fst", OF s1] by simp
    then have d1: "distinct (map fst (managers wm1))" using assms(1) by simp
    show ?thesis
      using query [OF d1] s1 h
      by (cases p) (simp_all add: pullBalancesAtBlockHeight_def None async_def
          getBlockHeightForAllSupportedChains_def)
  qed
qed

text \<open>
  C6. \<^verbatim>\<open>pullBalancesAtBlockHeight\<close>. Given a record of heights: if one of its keys has
  no manager, the call rejects with \<open>No wallets configured for chain\<close> for such a key and
  calls nothing; if all have one, every managed chain is queried at the height the record
  has for it (\<^verbatim>\<open>undefined\<close> where it has none), and when all queries succeed the call
  fulfils with a new record of their results, one entry per managed chain. Given no
  record: \<^verbatim>\<open>getBlockHeightForAllSupportedChains\<close> runs first; if it rejects, so does the
  call, with the same error; if it fulfils, the call goes on exactly as if that record of
  heights had been given. In every case the balance tables of all managers are as before,
  provided \<^verbatim>\<open>pullBalancesAtBlockHeight\<close> and \<^verbatim>\<open>getBlockHeight\<close> of a chain
  manager leave its table alone, as they are specified to.
\<close>

theorem pullBalancesAtBlockHeight_validates_fetches_queries:
  "((\<exists>k \<in> fst ` set heights. map_of (managers wm) k = None)
     \<longrightarrow> (\<exists>k \<in> fst ` set heights. map_of (managers wm) k = None
           \<and> pullBalancesAtBlockHeight E (Some heights) wm
               = (Returned (Rejected (Error (''No wallets configured for chain: '' @ k))), wm)))
   \<and> (distinct (map fst (managers wm))
      \<and> (\<forall>k \<in> fst ` set heights. map_of (managers wm) k \<noteq> None)
      \<and> (\<forall>(c, m) \<in> set (managers wm).
            fst (cwm_pullBalancesAtBlockHeight E (map_of heights c) (cwm_inner m))
              = Fulfilled (bal c))
     \<longrightarrow> fst (pullBalancesAtBlockHeight E (Some heights) wm)
           = Returned (Fulfilled (map (\<lambda>(c, m). (c, bal c)) (managers wm))))
   \<and> (getBlockHeightForAllSupportedChains E wm = (Returned (Rejected e), wm1)
     \<longrightarrow> pullBalancesAtBlockHeight E None wm = (Returned (Rejected e), wm1))
   \<and> (getBlockHeightForAllSupportedChains E wm = (Returned (Fulfilled fetched), wm1)
     \<longrightarrow> pullBalancesAtBlockHeight E None wm = pullBalancesAtBlockHeight E (Some fetched) wm1)
   \<and> (distinct (map fst (managers wm))
      \<and> (\<forall>h d. cwm_getBalances E (snd (cwm_pullBalancesAtBlockHeight E h d))
                  = cwm_getBalances E d)
      \<and> (\<forall>d. cwm_getBalances E (snd (cwm_getBlockHeight E d)) = cwm_getBalances E d)
     \<longrightarrow> snapshots E (snd (pullBalancesAtBlockHeight E heightsByChain wm)) = snapshots E wm)"
  using pull_given_unknown [of heights wm E] pull_given_ok [of wm heights E bal]
    pull_none_rejected [of E wm e wm1] pull_none_fulfilled [of E wm fetched wm1]
    pull_snapshots [of wm E heightsByChain]
  by blast

lemma example_heights:
  "getBlockHeightForAllSupportedChains exampleExternals exampleManager2
     = (Returned (Fulfilled [(''ethereum'', 19000000), (''solana'', 250000000)]), exampleManager2)"
  by (simp add: getBlockHeightForAllSupportedChains_def fanOut_def blockHeightMapper_def
      async_def example_defs)

lemma example_heights_fail:
  "fst (getBlockHeightForAllSupportedChains exampleExternals exampleManager3)
     = Returned (Rejected
         (Error ''No block height found for chain: sui, error: Error: rpc unavailable''))"
  by (simp add: getBlockHeightForAllSupportedChains_def fanOut_def blockHeightMapper_def
      async_def example_defs)

text \<open>
  On the example with \<open>ethereum\<close> and \<open>solana\<close>: a record naming \<open>sui\<close> is refused; a
  record for both chains gives the balances of both; no record gives the same as the
  record of the fetched heights; the tables stay as they were. With the unreachable
  \<open>sui\<close> managed and no record given, the call rejects with the error of the fetch.
\<close>

theorem pullBalancesAtBlockHeight_validates_fetches_queries_witness:
  "fst (pullBalancesAtBlockHeight exampleExternals (Some [(''ethereum'', 1), (''sui'', 2)])
          exampleManager2)
     = Returned (Rejected (Error ''No wallets configured for chain: sui''))
   \<and> fst (pullBalancesAtBlockHeight exampleExternals
            (Some [(''ethereum'', 19000000), (''solana'', 250000000)]) exampleManager2)
     = Returned (Fulfilled [(''ethereum'', exampleBalances [''0xA''] ''1.0''),
                            (''solana'', exampleBalances [''0xB''] ''1.0'')])
   \<and> pullBalancesAtBlockHeight exampleExternals None exampleManager2
     = pullBalancesAtBlockHeight exampleExternals
         (Some [(''ethereum'', 19000000), (''solana'', 250000000)]) exampleManager2
   \<and> fst (pullBalancesAtBlockHeight exampleExternals None exampleManager3)
     = Returned (Rejected
         (Error ''No block height found for chain: sui, error: Error: rpc unavailable''))
   \<and> snapshots exampleExternals (snd (pullBalancesAtBlockHeight exampleExternals None exampleManager2))
     = snapshots exampleExternals exampleManager2"
proof -
  let ?E = exampleExternals
  let ?hs = "[(''ethereum'', 19000000), (''solana'', 250000000 :: int)]"
  let ?bad = "[(''ethereum'', 1), (''sui'', 2 :: int)]"
  let ?bal = "\<lambda>c. if c = ''ethereum'' then exampleBalances [''0xA''] ''1.0''
                  else exampleBalances [''0xB''] ''1.0''"
  note claim = pullBalancesAtBlockHeight_validates_fetches_queries
  have d: "distinct (map fst (managers exampleManager2))"
    by (simp add: exampleManager2_def)
  have a0: "\<exists>k \<in> fst ` set ?bad. map_of (managers exampleManager2) k = None"
    by (simp add: exampleManager2_def)
  have "\<exists>k \<in> fst ` set ?bad. map_of (managers exampleManager2) k = None
          \<and> pullBalancesAtBlockHeight ?E (Some ?bad) exampleManager2
              = (Returned (Rejected (Error (''No wallets configured for chain: '' @ k))),
                 exampleManager2)"
    using claim [where heights = ?bad and wm = exampleManager2 and E = ?E] a0 by blast
  then have a: "fst (pullBalancesAtBlockHeight ?E (Some ?bad) exampleManager2)
                  = Returned (Rejected (Error ''No wallets configured for chain: sui''))"
    by (auto simp: exampleManager2_def)
  have b1: "\<forall>k \<in> fst ` set ?hs. map_of (managers exampleManager2) k \<noteq> None"
    by (simp add: exampleManager2_def)
  have b2: "\<forall>(c, m) \<in> set (managers exampleManager2).
              fst (cwm_pullBalancesAtBlockHeight ?E (map_of ?hs c) (cwm_inner m)) = Fulfilled (?bal c)"
    by (simp add: example_defs)
  have "fst (pullBalancesAtBlockHeight ?E (Some ?hs) exampleManager2)
          = Returned (Fulfilled (map (\<lambda>(c, m). (c, ?bal c)) (managers exampleManager2)))"
    using claim [where heights = ?hs and wm = exampleManager2 and E = ?E and bal = ?bal] d b1 b2
    by blast
  then have b: "fst (pullBalancesAtBlockHeight ?E (Some ?hs) exampleManager2)
          = Returned (Fulfilled [(''ethereum'', exampleBalances [''0xA''] ''1.0''),
                                 (''solana'', exampleBalances [''0xB''] ''1.0'')])"
    by (simp add: exampleManager2_def)
  have c: "pullBalancesAtBlockHeight ?E None exampleManager2
             = pullBalancesAtBlockHeight ?E (Some ?hs) exampleManager2"
    using claim [where wm = exampleManager2 and E = ?E and fetched = ?hs and ?wm1.0 = exampleManager2]
      example_heights by blast
  obtain wm1 where f: "getBlockHeightForAllSupportedChains ?E exampleManager3
      = (Returned (Rejected
           (Error ''No block height found for chain: sui, error: Error: rpc unavailable'')), wm1)"
    using example_heights_fail
    by (cases "getBlockHeightForAllSupportedChains ?E exampleManager3") auto
  have e: "fst (pullBalancesAtBlockHeight ?E None exampleManager3)
      = Returned (Rejected
          (Error ''No block height found for chain: sui, error: Error: rpc unavailable''))"
    using claim [where wm = exampleManager3 and E = ?E and ?wm1.0 = wm1
        and e = "Error ''No block height found for chain: sui, error: Error: rpc unavailable''"] f
    by simp
  have p1: "\<forall>h d. cwm_getBalances ?E (snd (cwm_pullBalancesAtBlockHeight ?E h d))
                    = cwm_getBalances ?E d"
    by (simp add: exampleExternals_def split: option.splits)
  have p2: "\<forall>d. cwm_getBalances ?E (snd (cwm_getBlockHeight ?E d)) = cwm_getBalances ?E d"
    by (simp add: exampleExternals_def)
  have s: "snapshots ?E (snd (pullBalancesAtBlockHeight ?E None exampleManager2))
             = snapshots ?E exampleManager2"
    using claim [where wm = exampleManager2 and E = ?E and heightsByChain = None] d p1 p2
    by blast
  show ?thesis using a b c e s by simp
qed

section \<open>Invalid chain names in the configuration\<close>

lemma constructChains_invalid_throws:
  "\<not> isChain E c \<Longrightarrow> failOnInvalidChain opts
   \<Longrightarrow> constructChains E (Some opts) pf ((c, cc) # rest) wm
        = Inl (Error (''Invalid chain name: '' @ c))"
  by simp

lemma constructChains_invalid_skips:
  "\<not> isChain E c \<Longrightarrow> options = None \<or> (\<exists>opts. options = Some opts \<and> \<not> failOnInvalidChain opts)
   \<Longrightarrow> constructChains E options pf ((c, cc) # rest) wm
        = constructChains E options pf rest
            (withHub (logLn ''warn'' (''Invalid chain name: '' @ c)) wm)"
  by auto

text \<open>
  C2. The constructor throws \<open>Invalid chain name\<close> for a name that is no chain when
  \<^verbatim>\<open>failOnInvalidChain\<close> is set in the options, and logs a warning and skips the entry
  when it is not set. The schema gives the flag the default \<open>true\<close>, but the constructor
  reads \<^verbatim>\<open>options?.failOnInvalidChain\<close> of the options as passed: with no options the
  invalid name is skipped with a warning and the construction succeeds. On the example:
\<close>

theorem constructor_without_options_skips_invalid_chain:
  "newWalletManager exampleExternals [(''notachain'', exampleChain ''0xZ'')] None
     = Inr \<lparr>emitter = [], exporter = None,
            logger = [LogLine ''warn'' ''Invalid chain name: notachain''], managers = []\<rparr>
   \<and> newWalletManager exampleExternals [(''notachain'', exampleChain ''0xZ'')]
       (Some exampleOptions)
     = Inl (Error ''Invalid chain name: notachain'')"
  by (simp add: construct_defs example_defs)

section \<open>Error counters of the exporter\<close>

lemma onError_creates_again:
  assumes "chainName \<notin> set mapObjectProperties"
    and "create (counters x)
           (chainName @ ''_'' @ (case errorsName of None \<Rightarrow> ''errors''
                                 | Some n \<Rightarrow> if n = [] then ''errors'' else n))
         = Inr (cs, c)"
  shows "onError create errorsName chainName x
           = (Returned (),
              x\<lparr>counters := inc c cs, errorCounters := assign chainName c (errorCounters x)\<rparr>)"
  using assms by (simp add: onError_def inMapObject_def map_of_assign)

text \<open>
  C10. The listener tests \<^verbatim>\<open>chainName in this.errorCounters\<close>, which does not look at
  the entries of the map, so for a chain name that is no property of a \<^verbatim>\<open>Map\<close> it
  creates a counter on every \<open>error\<close> event and puts it in place of the one the map held.
  Two events for \<open>ethereum\<close>: two counters are created, each incremented once.
\<close>

theorem second_error_event_creates_second_counter:
  "onErrors createAlways None [''ethereum'', ''ethereum'']
     \<lparr>errorCounters = [], counters = []\<rparr>
   = (Returned (),
      \<lparr>errorCounters = [(''ethereum'', 1)],
       counters = [\<lparr>counterName = ''ethereum_errors'', counterValue = 1\<rparr>,
                   \<lparr>counterName = ''ethereum_errors'', counterValue = 1\<rparr>]\<rparr>)"
  by (simp add: onError_def inMapObject_def mapObjectProperties_def createAlways_def inc_def)

end
